theory Spec2Isabelle
  imports Complex_Main
begin

section \<open>Values shared by the transaction layer\<close>

text \<open>
  The transaction layer (\<^verbatim>\<open>TransactionTracker\<close>, \<^verbatim>\<open>GasEstimator\<close>,
  \<^verbatim>\<open>TransactionExecutor\<close> and the helpers below them) is asynchronous TypeScript over
  the ethers library. An awaited call has three outcomes: it resolves with a value, it
  rejects with an error object, or it never settles. All three are values of the model, so
  a function that waits forever is visible as \<open>Never\<close> rather than hidden.
\<close>

datatype js_code = NoCode | NumCode int | StrCode string

record js_error =
  code :: js_code
  message :: "string option"

datatype 'a promise = Resolved 'a | Rejected js_error | Never

text \<open>\<^verbatim>\<open>new Error(m)\<close>: no \<^verbatim>\<open>code\<close> property; an undefined argument leaves the
  message empty.\<close>

definition new_Error :: "string option \<Rightarrow> js_error" where
  "new_Error m = \<lparr>code = NoCode, message = Some (case m of None \<Rightarrow> [] | Some s \<Rightarrow> s)\<rparr>"

datatype tx_state = pending | confirming | confirmed | failed

record TransactionStatus =
  hash :: "string option"
  status :: tx_state
  confirmations :: int
  gasUsed :: "string option"
  effectiveGasPrice :: "string option"
  blockNumber :: "int option"
  error :: "string option"

record GasEstimate =
  gasLimit :: int
  gasPrice :: int
  maxFeePerGas :: "int option"
  maxPriorityFeePerGas :: "int option"
  estimatedCost :: string
  estimatedCostUSD :: "string option"

text \<open>What the ethers provider and contract hand back. A \<^verbatim>\<open>bigint\<close> is an \<open>int\<close>;
  a field that may be \<^verbatim>\<open>null\<close> is an option.\<close>

record FeeData =
  fee_gasPrice :: "int option"
  fee_maxFeePerGas :: "int option"
  fee_maxPriorityFeePerGas :: "int option"

record TransactionReceipt =
  receipt_blockNumber :: int
  receipt_gasUsed :: int
  receipt_gasPrice :: int
  receipt_status :: "int option"

record ContractTransaction =
  tx_hash :: string

text \<open>The overrides object passed with the contract call: \<^verbatim>\<open>gasPrice\<close> is spread in
  only on the legacy path.\<close>

record overrides =
  ov_gasLimit :: int
  ov_maxFeePerGas :: "int option"
  ov_maxPriorityFeePerGas :: "int option"
  ov_gasPrice :: "int option"

text \<open>The collaborators are parameters of the model. \<open>provider\<close> and \<open>contract\<close> give
  the outcome of each remote call of one invocation; \<open>library\<close> holds the formatting
  functions of ethers (which throw on a value outside their range) and
  \<^verbatim>\<open>parseFloat(s).toFixed(6)\<close>, which is floating point and never throws.\<close>

record provider =
  getFeeData :: "FeeData promise"
  waitForTransaction :: "string \<Rightarrow> int \<Rightarrow> TransactionReceipt option promise"
  getTransactionReceipt :: "string \<Rightarrow> TransactionReceipt option promise"

record 'a contract =
  estimateGas :: "string \<Rightarrow> 'a list \<Rightarrow> int promise"
  send :: "string \<Rightarrow> 'a list \<Rightarrow> overrides \<Rightarrow> ContractTransaction promise"

record library =
  formatUnits :: "int \<Rightarrow> string \<Rightarrow> js_error + string"
  formatEther :: "int \<Rightarrow> js_error + string"
  toFixed6 :: "string \<Rightarrow> string"

record options =
  opt_confirmations :: "int option"
  opt_timeout :: "int option"

subsection \<open>JavaScript operators on bigint values\<close>

text \<open>A \<^verbatim>\<open>bigint\<close> is falsy when it is \<^verbatim>\<open>0n\<close>, and so are \<^verbatim>\<open>null\<close> and
  \<^verbatim>\<open>undefined\<close>.\<close>

definition truthy :: "int option \<Rightarrow> bool" where
  "truthy x = (case x of None \<Rightarrow> False | Some v \<Rightarrow> v \<noteq> 0)"

text \<open>\<^verbatim>\<open>x || d\<close> with a bigint default, and \<^verbatim>\<open>x || undefined\<close>.\<close>

definition js_or :: "int option \<Rightarrow> int \<Rightarrow> int" where
  "js_or x d = (case x of None \<Rightarrow> d | Some v \<Rightarrow> if v = 0 then d else v)"

definition or_undefined :: "int option \<Rightarrow> int option" where
  "or_undefined x = (case x of None \<Rightarrow> None | Some v \<Rightarrow> if v = 0 then None else Some v)"

text \<open>\<^verbatim>\<open>a / b\<close> on bigints truncates toward zero.\<close>

definition bigint_div :: "int \<Rightarrow> int \<Rightarrow> int" where
  "bigint_div a b = sgn a * sgn b * (\<bar>a\<bar> div \<bar>b\<bar>)"

text \<open>\<^verbatim>\<open>ethers.parseUnits('20', 'gwei')\<close>: gwei has nine decimals.\<close>

definition parseUnits_gwei :: "int \<Rightarrow> int" where
  "parseUnits_gwei n = n * 10 ^ 9"

section \<open>GasEstimator\<close>

text \<open>The \<^verbatim>\<open>console.log\<close> of the fee data formats every truthy field, in the order
  \<^verbatim>\<open>gasPrice\<close>, \<^verbatim>\<open>maxFeePerGas\<close>, \<^verbatim>\<open>maxPriorityFeePerGas\<close>; a formatter that
  throws there aborts the try block.\<close>

definition log_field :: "library \<Rightarrow> int option \<Rightarrow> js_error + unit" where
  "log_field lib x =
     (case x of
        None \<Rightarrow> Inr ()
      | Some v \<Rightarrow>
          if v = 0 then Inr ()
          else (case formatUnits lib v ''gwei'' of Inl e \<Rightarrow> Inl e | Inr s \<Rightarrow> Inr ()))"

definition log_fee_data :: "library \<Rightarrow> FeeData \<Rightarrow> js_error + unit" where
  "log_fee_data lib feeData =
     (case log_field lib (fee_gasPrice feeData) of
        Inl e \<Rightarrow> Inl e
      | Inr u \<Rightarrow>
          (case log_field lib (fee_maxFeePerGas feeData) of
             Inl e \<Rightarrow> Inl e
           | Inr u \<Rightarrow> log_field lib (fee_maxPriorityFeePerGas feeData)))"

text \<open>The values computed between the gas-limit estimate and the return statement.\<close>

definition bufferedGasLimit :: "int \<Rightarrow> int" where
  "bufferedGasLimit raw = bigint_div (raw * 120) 100"

definition selected_gasPrice :: "FeeData \<Rightarrow> int" where
  "selected_gasPrice feeData = js_or (fee_gasPrice feeData) 0"

definition selected_maxFeePerGas :: "FeeData \<Rightarrow> int option" where
  "selected_maxFeePerGas feeData =
     (if \<not> truthy (fee_maxFeePerGas feeData) \<and> selected_gasPrice feeData > 0
      then Some (selected_gasPrice feeData)
      else fee_maxFeePerGas feeData)"

definition estimatedCostWei :: "int \<Rightarrow> FeeData \<Rightarrow> int" where
  "estimatedCostWei raw feeData =
     bufferedGasLimit raw * js_or (selected_maxFeePerGas feeData) (selected_gasPrice feeData)"

text \<open>The body of the try block of \<^verbatim>\<open>estimateContractCall\<close>.\<close>

definition estimate_try ::
  "library \<Rightarrow> provider \<Rightarrow> 'a contract \<Rightarrow> string \<Rightarrow> 'a list \<Rightarrow> GasEstimate promise" where
  "estimate_try lib prov contract methodName args =
     (case getFeeData prov of
        Never \<Rightarrow> Never
      | Rejected e \<Rightarrow> Rejected e
      | Resolved feeData \<Rightarrow>
          (case log_fee_data lib feeData of
             Inl e \<Rightarrow> Rejected e
           | Inr u \<Rightarrow>
               (case estimateGas contract methodName args of
                  Never \<Rightarrow> Never
                | Rejected e \<Rightarrow> Rejected e
                | Resolved raw \<Rightarrow>
                    (case formatEther lib (estimatedCostWei raw feeData) of
                       Inl e \<Rightarrow> Rejected e
                     | Inr estimatedCostEth \<Rightarrow>
                         Resolved
                           \<lparr>gasLimit = bufferedGasLimit raw,
                            gasPrice = selected_gasPrice feeData,
                            maxFeePerGas = or_undefined (selected_maxFeePerGas feeData),
                            maxPriorityFeePerGas =
                              or_undefined (fee_maxPriorityFeePerGas feeData),
                            estimatedCost = toFixed6 lib estimatedCostEth,
                            estimatedCostUSD = None\<rparr>))))"

text \<open>The catch block: the default estimate.\<close>

definition default_estimate :: GasEstimate where
  "default_estimate =
     \<lparr>gasLimit = 200000,
      gasPrice = parseUnits_gwei 20,
      maxFeePerGas = None,
      maxPriorityFeePerGas = None,
      estimatedCost = ''0.004'',
      estimatedCostUSD = None\<rparr>"

definition estimateContractCall ::
  "library \<Rightarrow> provider \<Rightarrow> 'a contract \<Rightarrow> string \<Rightarrow> 'a list \<Rightarrow> GasEstimate promise" where
  "estimateContractCall lib prov contract methodName args =
     (case estimate_try lib prov contract methodName args of
        Resolved g \<Rightarrow> Resolved g
      | Rejected e \<Rightarrow> Resolved default_estimate
      | Never \<Rightarrow> Never)"

section \<open>TransactionTracker\<close>

text \<open>The callback \<^verbatim>\<open>onStatusUpdate\<close> is modelled as the list of the updates
  delivered to it, in order; a callback that itself throws is outside the model.\<close>

definition pending_update :: "string option \<Rightarrow> TransactionStatus" where
  "pending_update h =
     \<lparr>hash = h, status = pending, confirmations = 0, gasUsed = None,
      effectiveGasPrice = None, blockNumber = None, error = None\<rparr>"

definition failed_update :: "string option \<Rightarrow> string option \<Rightarrow> TransactionStatus" where
  "failed_update h m =
     \<lparr>hash = h, status = failed, confirmations = 0, gasUsed = None,
      effectiveGasPrice = None, blockNumber = None, error = m\<rparr>"

text \<open>The try block of \<^verbatim>\<open>trackTransaction\<close>: it waits with one confirmation and no
  timeout, and delivers its only update right before it returns the receipt, so the body
  is the pair of that update and the receipt.\<close>

definition track_try ::
  "library \<Rightarrow> provider \<Rightarrow> string \<Rightarrow> (TransactionStatus \<times> TransactionReceipt) promise" where
  "track_try lib prov txHash =
     (case waitForTransaction prov txHash 1 of
        Never \<Rightarrow> Never
      | Rejected e \<Rightarrow> Rejected e
      | Resolved None \<Rightarrow> Rejected (new_Error (Some ''Transaction receipt not found''))
      | Resolved (Some receipt) \<Rightarrow>
          (case formatUnits lib (receipt_gasUsed receipt) ''wei'' of
             Inl e \<Rightarrow> Rejected e
           | Inr used \<Rightarrow>
               (case (if receipt_gasPrice receipt \<noteq> 0
                      then map_sum id Some (formatUnits lib (receipt_gasPrice receipt) ''gwei'')
                      else Inr None) of
                  Inl e \<Rightarrow> Rejected e
                | Inr price \<Rightarrow>
                    Resolved
                      (\<lparr>hash = Some txHash,
                        status = (if receipt_status receipt = Some 1 then confirmed else failed),
                        confirmations = 1,
                        gasUsed = Some used,
                        effectiveGasPrice = price,
                        blockNumber = Some (receipt_blockNumber receipt),
                        error = None\<rparr>,
                       receipt))))"

definition trackTransaction ::
  "library \<Rightarrow> provider \<Rightarrow> string \<Rightarrow> TransactionStatus list \<times> TransactionReceipt promise" where
  "trackTransaction lib prov txHash =
     (case track_try lib prov txHash of
        Never \<Rightarrow> ([pending_update (Some txHash)], Never)
      | Resolved (final, receipt) \<Rightarrow> ([pending_update (Some txHash), final], Resolved receipt)
      | Rejected e \<Rightarrow>
          ([pending_update (Some txHash), failed_update (Some txHash) (message e)],
           Rejected e))"

section \<open>TransactionExecutor\<close>

text \<open>\<^verbatim>\<open>String.prototype.includes\<close>: the pattern occurs as a contiguous piece.\<close>

fun str_includes :: "string \<Rightarrow> string \<Rightarrow> bool" where
  "str_includes [] pat = (pat = [])"
| "str_includes (c # cs) pat = (take (length pat) (c # cs) = pat \<or> str_includes cs pat)"

text \<open>\<^verbatim>\<open>error.message?.includes(pat)\<close>: undefined, hence falsy, without a message.\<close>

definition message_includes :: "js_error \<Rightarrow> string \<Rightarrow> bool" where
  "message_includes e pat = (case message e of None \<Rightarrow> False | Some m \<Rightarrow> str_includes m pat)"

text \<open>The if-chain of the catch block that chooses the user-facing message.\<close>

definition userMessage :: "js_error \<Rightarrow> string option" where
  "userMessage e =
     (if code e = NumCode 4001 then Some ''Transaction cancelled by user''
      else if code e = NumCode (- 32603)
        then Some ''Transaction failed - insufficient funds or contract error''
      else if message_includes e ''insufficient funds''
        then Some ''Insufficient ETH balance for gas fees''
      else if message_includes e ''user rejected'' then Some ''Transaction rejected by user''
      else if message_includes e ''execution reverted''
        then Some ''Contract execution failed - check your data''
      else message e)"

definition execute_catch ::
  "TransactionStatus list \<Rightarrow> js_error \<Rightarrow> TransactionStatus list \<times> TransactionReceipt promise" where
  "execute_catch delivered e =
     (delivered @ [failed_update None (userMessage e)], Rejected (new_Error (userMessage e)))"

definition overrides_of :: "GasEstimate \<Rightarrow> overrides" where
  "overrides_of g =
     \<lparr>ov_gasLimit = gasLimit g,
      ov_maxFeePerGas = maxFeePerGas g,
      ov_maxPriorityFeePerGas = maxPriorityFeePerGas g,
      ov_gasPrice = (if gasPrice g \<noteq> 0 \<and> \<not> truthy (maxFeePerGas g)
                     then Some (gasPrice g) else None)\<rparr>"

text \<open>\<^verbatim>\<open>executeTransaction\<close>. The two options are read with their defaults, as the
  source does, and nothing after that line mentions them.\<close>

definition executeTransaction ::
  "library \<Rightarrow> provider \<Rightarrow> 'a contract \<Rightarrow> string \<Rightarrow> 'a list \<Rightarrow> options \<Rightarrow>
     TransactionStatus list \<times> TransactionReceipt promise" where
  "executeTransaction lib prov contract methodName args opts =
     (let confirmations = (case opt_confirmations opts of None \<Rightarrow> 1 | Some c \<Rightarrow> c);
          timeout = (case opt_timeout opts of None \<Rightarrow> 300000 | Some t \<Rightarrow> t)
      in case estimateContractCall lib prov contract methodName args of
           Never \<Rightarrow> ([], Never)
         | Rejected e \<Rightarrow> execute_catch [] e
         | Resolved gasEstimate \<Rightarrow>
             (case send contract methodName args (overrides_of gasEstimate) of
                Never \<Rightarrow> ([pending_update None], Never)
              | Rejected e \<Rightarrow> execute_catch [pending_update None] e
              | Resolved tx \<Rightarrow>
                  (case trackTransaction lib prov (tx_hash tx) of
                     (delivered, Never) \<Rightarrow> (pending_update None # delivered, Never)
                   | (delivered, Rejected e) \<Rightarrow>
                       execute_catch (pending_update None # delivered) e
                   | (delivered, Resolved receipt) \<Rightarrow>
                       (pending_update None # delivered, Resolved receipt))))"

section \<open>Transaction utilities\<close>

definition getTransactionStatus ::
  "provider \<Rightarrow> string \<Rightarrow> TransactionReceipt option promise" where
  "getTransactionStatus prov txHash =
     (case getTransactionReceipt prov txHash of
        Resolved r \<Rightarrow> Resolved r
      | Rejected e \<Rightarrow> Resolved None
      | Never \<Rightarrow> Never)"

section \<open>FHE utilities\<close>

text \<open>\<^verbatim>\<open>decryptResult\<close> first turns the hex text into bytes:
  \<^verbatim>\<open>slice(2)\<close>, the global match of \<^verbatim>\<open>/.{2}/\<close>, \<^verbatim>\<open>parseInt(byte, 16)\<close> on each
  piece, and the \<^verbatim>\<open>Uint8Array\<close> constructor. A \<open>char\<close> stands for a code unit
  below 256, which covers every hex text.\<close>

definition is_line_terminator :: "char \<Rightarrow> bool" where
  "is_line_terminator c = (c = CHR 0x0A \<or> c = CHR 0x0D)"

text \<open>The dot of the pattern matches no line terminator; a failed match at one position
  is retried at the next.\<close>

fun match_pairs :: "string \<Rightarrow> string list" where
  "match_pairs (a # b # cs) =
     (if \<not> is_line_terminator a \<and> \<not> is_line_terminator b
      then [a, b] # match_pairs cs
      else match_pairs (b # cs))"
| "match_pairs cs = []"

definition is_white_space :: "char \<Rightarrow> bool" where
  "is_white_space c =
     (c = CHR 0x09 \<or> c = CHR 0x0A \<or> c = CHR 0x0B \<or> c = CHR 0x0C \<or> c = CHR 0x0D \<or>
      c = CHR 0x20 \<or> c = CHR 0xA0)"

definition hex_digit :: "char \<Rightarrow> nat option" where
  "hex_digit c =
     (let n = (of_char c :: nat) in
      if 48 \<le> n \<and> n \<le> 57 then Some (n - 48)
      else if 97 \<le> n \<and> n \<le> 102 then Some (n - 87)
      else if 65 \<le> n \<and> n \<le> 70 then Some (n - 55)
      else None)"

text \<open>The value of the longest run of hex digits at the front; \<open>None\<close> when there is
  no digit at all.\<close>

fun hex_digits_value :: "string \<Rightarrow> nat option \<Rightarrow> nat option" where
  "hex_digits_value [] acc = acc"
| "hex_digits_value (c # cs) acc =
     (case hex_digit c of
        None \<Rightarrow> acc
      | Some d \<Rightarrow> hex_digits_value cs (Some (case acc of None \<Rightarrow> d | Some a \<Rightarrow> 16 * a + d)))"

text \<open>\<^verbatim>\<open>parseInt(s, 16)\<close>: leading white space, a sign and a \<^verbatim>\<open>0x\<close> prefix are
  skipped; \<open>None\<close> is \<^verbatim>\<open>NaN\<close>.\<close>

definition parseInt16 :: "string \<Rightarrow> int option" where
  "parseInt16 s =
     (let s1 = dropWhile is_white_space s;
          neg = (take 1 s1 = ''-'');
          s2 = (if take 1 s1 = ''-'' \<or> take 1 s1 = ''+'' then drop 1 s1 else s1);
          s3 = (if take 2 s2 = ''0x'' \<or> take 2 s2 = ''0X'' then drop 2 s2 else s2)
      in case hex_digits_value s3 None of
           None \<Rightarrow> None
         | Some v \<Rightarrow> Some (if neg then - int v else int v))"

text \<open>An element of a \<^verbatim>\<open>Uint8Array\<close>: \<^verbatim>\<open>NaN\<close> becomes 0, anything else is taken
  modulo 256.\<close>

definition to_uint8 :: "int option \<Rightarrow> nat" where
  "to_uint8 x = (case x of None \<Rightarrow> 0 | Some v \<Rightarrow> nat (v mod 256))"

definition hex_bytes :: "string \<Rightarrow> nat list" where
  "hex_bytes encryptedResult = map (\<lambda>byte. to_uint8 (parseInt16 byte)) (match_pairs (drop 2 encryptedResult))"

text \<open>The module variable \<^verbatim>\<open>fhevmInstance\<close> is an argument: \<open>None\<close> before
  \<^verbatim>\<open>initializeFHE\<close> and after \<^verbatim>\<open>resetFHE\<close>.\<close>

definition decryptResult :: "'i option \<Rightarrow> string \<Rightarrow> int promise" where
  "decryptResult fhevmInstance encryptedResult =
     (case fhevmInstance of
        None \<Rightarrow> Rejected (new_Error (Some ''FHE instance not initialized''))
      | Some inst \<Rightarrow> (let bytes = hex_bytes encryptedResult in Resolved 0))"

section \<open>Properties as the specification words them\<close>

definition terminal :: "tx_state \<Rightarrow> bool" where
  "terminal s = (s = confirmed \<or> s = failed)"

text \<open>The ordering guarantee: \<open>pending\<close> first, at most one \<open>confirming\<close>, a terminal
  update last and exactly one terminal update in all, so that none follows it.\<close>

definition ordered_updates :: "tx_state list \<Rightarrow> bool" where
  "ordered_updates ss =
     (case ss of
        [] \<Rightarrow> False
      | s # rest \<Rightarrow>
          s = pending \<and> length (filter (\<lambda>x. x = confirming) ss) \<le> 1 \<and>
          terminal (last ss) \<and> length (filter terminal ss) = 1)"

text \<open>The buffered gas limit as the specification has it: the raw estimate times 1.2,
  rounded up.\<close>

definition ceil_buffer :: "int \<Rightarrow> int" where
  "ceil_buffer raw = \<lceil>(of_int raw :: rat) * (12 / 10)\<rceil>"

text \<open>The fee-scheme invariant: the legacy price alone, or the dynamic pair alone with
  the max fee at least the priority fee. The legacy field always holds a number in the
  source type, so it counts as populated when it is not 0.\<close>

definition one_fee_scheme :: "GasEstimate \<Rightarrow> bool" where
  "one_fee_scheme g =
     (case (maxFeePerGas g, maxPriorityFeePerGas g) of
        (None, None) \<Rightarrow> gasPrice g \<noteq> 0
      | (Some f, Some p) \<Rightarrow> gasPrice g = 0 \<and> p \<le> f
      | (Some f, None) \<Rightarrow> False
      | (None, Some p) \<Rightarrow> False)"

text \<open>A message contains a pattern when the pattern is a contiguous piece of it; an
  error without a message contains nothing.\<close>

definition occurs_in :: "string \<Rightarrow> string option \<Rightarrow> bool" where
  "occurs_in pat msg = (\<exists>m u v. msg = Some m \<and> m = u @ pat @ v)"

section \<open>A concrete network\<close>

text \<open>Collaborators for evaluating the functions on explicit inputs: formatters that
  succeed, a provider given by its fee data and the outcome of the confirmation wait,
  and a contract given by its raw gas estimate and the outcome of the submission.\<close>

definition sample_library :: library where
  "sample_library =
     \<lparr>formatUnits = (\<lambda>v u. Inr ''1.0''), formatEther = (\<lambda>v. Inr ''0.0024''),
      toFixed6 = (\<lambda>s. ''0.002400'')\<rparr>"

text \<open>A library whose \<open>formatEther\<close> accepts the amount of 2400000000000000 wei only
  and throws on any other, so that a cost it has formatted was computed from that
  amount.\<close>

definition exact_library :: library where
  "exact_library =
     \<lparr>formatUnits = (\<lambda>v u. Inr ''20.0''),
      formatEther =
        (\<lambda>v. if v = 2400000000000000 then Inr ''0.0024''
             else Inl (new_Error (Some ''unexpected amount''))),
      toFixed6 = (\<lambda>s. if s = ''0.0024'' then ''0.002400'' else s)\<rparr>"

definition sample_provider ::
  "FeeData promise \<Rightarrow> TransactionReceipt option promise \<Rightarrow> provider" where
  "sample_provider fees waited =
     \<lparr>getFeeData = fees,
      waitForTransaction = (\<lambda>h c. waited),
      getTransactionReceipt = (\<lambda>h. waited)\<rparr>"

definition sample_contract ::
  "int promise \<Rightarrow> ContractTransaction promise \<Rightarrow> unit contract" where
  "sample_contract raw sent = \<lparr>estimateGas = (\<lambda>m a. raw), send = (\<lambda>m a ov. sent)\<rparr>"

definition legacy_fees :: FeeData where
  "legacy_fees =
     \<lparr>fee_gasPrice = Some 20000000000, fee_maxFeePerGas = None,
      fee_maxPriorityFeePerGas = None\<rparr>"

definition dynamic_fees :: FeeData where
  "dynamic_fees =
     \<lparr>fee_gasPrice = Some 20000000000, fee_maxFeePerGas = Some 40000000000,
      fee_maxPriorityFeePerGas = Some 1000000000\<rparr>"

definition sample_receipt :: "int option \<Rightarrow> TransactionReceipt" where
  "sample_receipt st =
     \<lparr>receipt_blockNumber = 7, receipt_gasUsed = 21000, receipt_gasPrice = 20000000000,
      receipt_status = st\<rparr>"

definition sample_tx :: ContractTransaction where
  "sample_tx = \<lparr>tx_hash = ''0xabc''\<rparr>"

definition no_options :: options where
  "no_options = \<lparr>opt_confirmations = None, opt_timeout = None\<rparr>"

text \<open>Errors as wallets and nodes raise them.\<close>

definition wallet_refusal :: js_error where
  "wallet_refusal =
     \<lparr>code = NumCode 4001, message = Some ''User denied transaction signature''\<rparr>"

definition node_failure :: js_error where
  "node_failure = \<lparr>code = NumCode (- 32603), message = Some ''Internal JSON-RPC error''\<rparr>"

definition low_balance :: js_error where
  "low_balance =
     \<lparr>code = StrCode ''INSUFFICIENT_FUNDS'',
      message = Some ''insufficient funds for intrinsic transaction cost''\<rparr>"

definition action_rejected :: js_error where
  "action_rejected =
     \<lparr>code = StrCode ''ACTION_REJECTED'', message = Some ''user rejected action''\<rparr>"

definition call_reverted :: js_error where
  "call_reverted =
     \<lparr>code = StrCode ''CALL_EXCEPTION'',
      message = Some ''execution reverted: already submitted''\<rparr>"

definition nonce_error :: js_error where
  "nonce_error = \<lparr>code = NoCode, message = Some ''nonce too low''\<rparr>"

section \<open>Auxiliary facts\<close>

lemmas sample_defs =
  sample_library_def sample_provider_def sample_contract_def legacy_fees_def
  dynamic_fees_def sample_receipt_def sample_tx_def no_options_def

lemmas sample_errors =
  wallet_refusal_def node_failure_def low_balance_def action_rejected_def
  call_reverted_def nonce_error_def

lemmas executor_defs =
  executeTransaction_def estimateContractCall_def estimate_try_def log_fee_data_def
  log_field_def trackTransaction_def track_try_def execute_catch_def

lemma bigint_div_nonneg: "0 \<le> a \<Longrightarrow> 0 < b \<Longrightarrow> bigint_div a b = a div b"
  by (cases "a = 0") (simp_all add: bigint_div_def)

lemma div_120_100: "(raw::int) * 120 div 100 = raw * 6 div 5"
proof -
  have "raw * 120 = 20 * (raw * 6)" "(100::int) = 20 * 5" by simp_all
  then show ?thesis by (simp only: div_mult_mult1)
qed

lemma bufferedGasLimit_nonneg: "0 \<le> raw \<Longrightarrow> bufferedGasLimit raw = raw * 120 div 100"
  by (simp add: bufferedGasLimit_def bigint_div_nonneg)

lemma ceil_buffer_eq: "ceil_buffer raw = - (- (raw * 6) div 5)"
proof -
  have "(of_int raw :: rat) * (12 / 10) = of_int (raw * 6) / of_int 5"
    by simp
  then show ?thesis
    unfolding ceil_buffer_def by (simp only: ceiling_divide_eq_div)
qed

lemma floor_buffer_eq: "\<lfloor>(of_int raw :: rat) * (12 / 10)\<rfloor> = raw * 120 div 100"
proof -
  have "(of_int raw :: rat) * (12 / 10) = of_int (raw * 120) / of_int 100"
    by simp
  then show ?thesis
    by (simp only: floor_divide_of_int_eq)
qed

lemma div5_bounds:
  fixes x :: int
  shows "5 * (x div 5) \<le> x" and "x < 5 * (x div 5) + 5"
proof -
  have "x div 5 * 5 + x mod 5 = x" by (rule div_mult_mod_eq)
  moreover have "0 \<le> x mod 5" "x mod 5 < 5" by simp_all
  ultimately show "5 * (x div 5) \<le> x" and "x < 5 * (x div 5) + 5" by linarith+
qed

lemma floor_ceil_gap:
  fixes raw :: int
  assumes "0 < raw"
  shows "raw \<le> raw * 6 div 5" and "raw * 6 div 5 \<le> - (- (raw * 6) div 5)"
    and "- (- (raw * 6) div 5) \<le> raw * 6 div 5 + 1"
    and "(raw * 6 div 5 = - (- (raw * 6) div 5)) = (5 dvd raw)"
proof -
  define q where "q = raw * 6 div 5"
  define n where "n = - (raw * 6) div 5"
  have q: "5 * q \<le> raw * 6" "raw * 6 < 5 * q + 5"
    unfolding q_def by (rule div5_bounds)+
  have n: "5 * n \<le> - (raw * 6)" "- (raw * 6) < 5 * n + 5"
    unfolding n_def by (rule div5_bounds)+
  show "raw \<le> raw * 6 div 5" using q assms unfolding q_def [symmetric] by linarith
  show "raw * 6 div 5 \<le> - (- (raw * 6) div 5)"
    using q n unfolding q_def [symmetric] n_def [symmetric] by linarith
  show "- (- (raw * 6) div 5) \<le> raw * 6 div 5 + 1"
    using q n unfolding q_def [symmetric] n_def [symmetric] by linarith
  have "q = - n \<longleftrightarrow> raw * 6 = 5 * q" using q n by linarith
  also have "\<dots> \<longleftrightarrow> 5 dvd raw * 6"
    unfolding q_def by (metis dvd_div_mult_self dvd_triv_left mult.commute)
  also have "\<dots> \<longleftrightarrow> 5 dvd raw"
  proof -
    have "raw * 6 = 5 * raw + raw" by simp
    then show ?thesis by (simp only: dvd_add_right_iff dvd_triv_left)
  qed
  finally show "(raw * 6 div 5 = - (- (raw * 6) div 5)) = (5 dvd raw)"
    unfolding q_def n_def .
qed

text \<open>What a computed estimate (the try block ran to its return) is made of.\<close>

lemma estimate_try_Resolved:
  assumes "estimate_try lib prov c m a = Resolved g"
  shows "\<exists>fd raw s.
    getFeeData prov = Resolved fd \<and> estimateGas c m a = Resolved raw \<and>
    formatEther lib (estimatedCostWei raw fd) = Inr s \<and>
    g = \<lparr>gasLimit = bufferedGasLimit raw, gasPrice = selected_gasPrice fd,
          maxFeePerGas = or_undefined (selected_maxFeePerGas fd),
          maxPriorityFeePerGas = or_undefined (fee_maxPriorityFeePerGas fd),
          estimatedCost = toFixed6 lib s, estimatedCostUSD = None\<rparr>"
proof (cases "getFeeData prov")
  case (Resolved fd)
  note fd = this
  show ?thesis
  proof (cases "log_fee_data lib fd")
    case (Inl e)
    with fd assms show ?thesis by (simp add: estimate_try_def)
  next
    case (Inr u)
    note lg = this
    show ?thesis
    proof (cases "estimateGas c m a")
      case (Resolved raw)
      note raw = this
      show ?thesis
      proof (cases "formatEther lib (estimatedCostWei raw fd)")
        case (Inl e)
        with fd lg raw assms show ?thesis by (simp add: estimate_try_def)
      next
        case (Inr s)
        with fd lg raw assms show ?thesis by (simp add: estimate_try_def)
      qed
    next
      case (Rejected e)
      with fd lg assms show ?thesis by (simp add: estimate_try_def)
    next
      case Never
      with fd lg assms show ?thesis by (simp add: estimate_try_def)
    qed
  qed
next
  case (Rejected e)
  with assms show ?thesis by (simp add: estimate_try_def)
next
  case Never
  with assms show ?thesis by (simp add: estimate_try_def)
qed

lemma estimateContractCall_computed:
  "estimate_try lib prov c m a = Resolved g \<Longrightarrow>
   estimateContractCall lib prov c m a = Resolved g"
  by (simp add: estimateContractCall_def)

lemma estimateContractCall_Resolved:
  assumes "estimateContractCall lib prov c m a = Resolved g"
  shows "estimate_try lib prov c m a = Resolved g \<or> g = default_estimate"
  using assms by (cases "estimate_try lib prov c m a") (simp_all add: estimateContractCall_def)

lemma take_is_prefix: "take (length pat) s = pat \<longleftrightarrow> (\<exists>b. s = pat @ b)"
proof
  assume "take (length pat) s = pat"
  then have "s = pat @ drop (length pat) s" by (metis append_take_drop_id)
  then show "\<exists>b. s = pat @ b" ..
next
  assume "\<exists>b. s = pat @ b"
  then show "take (length pat) s = pat" by auto
qed

text \<open>\<open>str_includes\<close> is the substring relation.\<close>

lemma str_includes_iff: "str_includes s pat \<longleftrightarrow> (\<exists>a b. s = a @ pat @ b)"
proof (induction s)
  case Nil
  then show ?case by simp
next
  case (Cons c cs)
  have "(\<exists>a b. c # cs = a @ pat @ b) \<longleftrightarrow>
        (\<exists>b. c # cs = pat @ b) \<or> (\<exists>a b. cs = a @ pat @ b)"
  proof
    assume "\<exists>a b. c # cs = a @ pat @ b"
    then obtain a b where ab: "c # cs = a @ pat @ b" by blast
    show "(\<exists>b. c # cs = pat @ b) \<or> (\<exists>a b. cs = a @ pat @ b)"
    proof (cases a)
      case Nil
      with ab show ?thesis by auto
    next
      case (Cons x xs)
      with ab have "cs = xs @ pat @ b" by simp
      then show ?thesis by blast
    qed
  next
    assume "(\<exists>b. c # cs = pat @ b) \<or> (\<exists>a b. cs = a @ pat @ b)"
    then show "\<exists>a b. c # cs = a @ pat @ b"
    proof
      assume "\<exists>b. c # cs = pat @ b"
      then obtain b where "c # cs = [] @ pat @ b" by auto
      then show ?thesis by blast
    next
      assume "\<exists>a b. cs = a @ pat @ b"
      then obtain a b where "c # cs = (c # a) @ pat @ b" by auto
      then show ?thesis by blast
    qed
  qed
  then show ?case using Cons.IH by (simp only: str_includes.simps take_is_prefix)
qed

section \<open>The gas limit buffer\<close>

text \<open>
  C3. The claim: for every raw estimate above 0 the returned gas limit is the raw
  estimate times 1.2 rounded up. The code divides bigints, which rounds down: at a raw
  estimate of 100001 the computed gas limit is 120001, below the 120002 that rounding
  up gives.
\<close>

theorem gasLimit_not_rounded_up:
  "estimateContractCall sample_library
     (sample_provider (Resolved legacy_fees) Never)
     (sample_contract (Resolved 100001) Never) ''submitCreditData'' [] =
   Resolved
     \<lparr>gasLimit = 120001, gasPrice = 20000000000, maxFeePerGas = Some 20000000000,
      maxPriorityFeePerGas = None, estimatedCost = ''0.002400'', estimatedCostUSD = None\<rparr> \<and>
   ceil_buffer 100001 = 120002"
  by (simp add: estimateContractCall_def estimate_try_def sample_library_def
      sample_provider_def sample_contract_def legacy_fees_def log_fee_data_def log_field_def
      estimatedCostWei_def bufferedGasLimit_def bigint_div_def selected_gasPrice_def
      selected_maxFeePerGas_def js_or_def or_undefined_def truthy_def ceil_buffer_eq)

text \<open>
  C3, as the code has it: a computed estimate for a raw estimate above 0 has the gas
  limit \<open>raw * 120 div 100\<close>, the product with 1.2 rounded down. It is at least the raw
  estimate, at most the rounded-up product and less than 1 below it, and it equals the
  rounded-up product exactly when the raw estimate is a multiple of 5.
\<close>

theorem gasLimit_rounded_down:
  assumes "estimate_try lib prov c m a = Resolved g"
    and "estimateGas c m a = Resolved raw" and "0 < raw"
  shows "estimateContractCall lib prov c m a = Resolved g \<and>
         gasLimit g = \<lfloor>(of_int raw :: rat) * (12 / 10)\<rfloor> \<and>
         gasLimit g = raw * 120 div 100 \<and>
         raw \<le> gasLimit g \<and> gasLimit g \<le> ceil_buffer raw \<and>
         ceil_buffer raw \<le> gasLimit g + 1 \<and>
         (gasLimit g = ceil_buffer raw \<longleftrightarrow> 5 dvd raw)"
proof -
  from estimate_try_Resolved [OF assms(1)] obtain raw' where
    r: "estimateGas c m a = Resolved raw'" and g: "gasLimit g = bufferedGasLimit raw'"
    by auto
  from r assms(2) have "raw' = raw" by simp
  with g assms(3) have gl: "gasLimit g = raw * 120 div 100"
    by (simp add: bufferedGasLimit_nonneg)
  then have gl5: "gasLimit g = raw * 6 div 5" by (simp only: div_120_100)
  have 1: "estimateContractCall lib prov c m a = Resolved g"
    using assms(1) by (rule estimateContractCall_computed)
  have 2: "gasLimit g = \<lfloor>(of_int raw :: rat) * (12 / 10)\<rfloor>"
    using gl by (simp only: floor_buffer_eq)
  have 3: "raw \<le> gasLimit g"
    using floor_ceil_gap(1) [OF assms(3)] by (simp only: gl5)
  have 4: "gasLimit g \<le> ceil_buffer raw"
    using floor_ceil_gap(2) [OF assms(3)] by (simp only: gl5 ceil_buffer_eq)
  have 5: "ceil_buffer raw \<le> gasLimit g + 1"
    using floor_ceil_gap(3) [OF assms(3)] by (simp only: gl5 ceil_buffer_eq)
  have 6: "gasLimit g = ceil_buffer raw \<longleftrightarrow> 5 dvd raw"
    using floor_ceil_gap(4) [OF assms(3)] by (simp only: gl5 ceil_buffer_eq)
  from 1 2 gl 3 4 5 6 show ?thesis by blast
qed

theorem gasLimit_rounded_down_witness:
  "estimate_try sample_library (sample_provider (Resolved legacy_fees) Never)
     (sample_contract (Resolved 100001) Never) ''submitCreditData'' [] =
   Resolved
     \<lparr>gasLimit = 120001, gasPrice = 20000000000, maxFeePerGas = Some 20000000000,
      maxPriorityFeePerGas = None, estimatedCost = ''0.002400'', estimatedCostUSD = None\<rparr> \<and>
   estimateGas (sample_contract (Resolved 100001) Never) ''submitCreditData'' [] =
     Resolved 100001 \<and>
   (0::int) < 100001 \<and>
   (120001::int) = \<lfloor>(of_int 100001 :: rat) * (12 / 10)\<rfloor> \<and>
   (100001::int) \<le> 120001 \<and> 120001 \<le> ceil_buffer 100001 \<and>
   ceil_buffer 100001 \<le> 120001 + 1 \<and> \<not> (5::int) dvd 100001"
proof -
  let ?g = "\<lparr>gasLimit = 120001, gasPrice = 20000000000, maxFeePerGas = Some 20000000000,
      maxPriorityFeePerGas = None, estimatedCost = ''0.002400'', estimatedCostUSD = None\<rparr>"
  have h1: "estimate_try sample_library (sample_provider (Resolved legacy_fees) Never)
     (sample_contract (Resolved 100001) Never) ''submitCreditData'' [] = Resolved ?g"
    by (simp add: estimate_try_def sample_library_def
      sample_provider_def sample_contract_def legacy_fees_def log_fee_data_def log_field_def
      estimatedCostWei_def bufferedGasLimit_def bigint_div_def selected_gasPrice_def
      selected_maxFeePerGas_def js_or_def or_undefined_def truthy_def)
  have h2: "estimateGas (sample_contract (Resolved 100001) Never) ''submitCreditData'' [] =
     Resolved 100001"
    by (simp add: sample_contract_def)
  have h3: "(0::int) < 100001" by simp
  have c: "ceil_buffer 100001 = 120002" by (simp add: ceil_buffer_eq)
  from gasLimit_rounded_down [OF h1 h2 h3] h1 h2 c show ?thesis by simp
qed

section \<open>The estimator never raises\<close>

text \<open>
  C4. \<^verbatim>\<open>estimateContractCall\<close> never rejects, whatever the collaborators do. When
  the fee-data query, the logging of the fee data, the gas-limit estimation or the cost
  computation throws, it returns the default estimate, which has the gas limit 200000,
  the legacy gas price of 20 gwei and neither dynamic-fee field. When both remote calls
  settle it does return an estimate.
\<close>

theorem estimateContractCall_never_raises:
  "(\<forall>e. estimateContractCall lib prov c m a \<noteq> Rejected e) \<and>
   (\<forall>e. getFeeData prov = Rejected e \<longrightarrow>
      estimateContractCall lib prov c m a = Resolved default_estimate) \<and>
   (\<forall>fd e. getFeeData prov = Resolved fd \<and> log_fee_data lib fd = Inl e \<longrightarrow>
      estimateContractCall lib prov c m a = Resolved default_estimate) \<and>
   (\<forall>fd e. getFeeData prov = Resolved fd \<and> log_fee_data lib fd = Inr () \<and>
      estimateGas c m a = Rejected e \<longrightarrow>
      estimateContractCall lib prov c m a = Resolved default_estimate) \<and>
   (\<forall>fd raw e. getFeeData prov = Resolved fd \<and> log_fee_data lib fd = Inr () \<and>
      estimateGas c m a = Resolved raw \<and>
      formatEther lib (estimatedCostWei raw fd) = Inl e \<longrightarrow>
      estimateContractCall lib prov c m a = Resolved default_estimate) \<and>
   (getFeeData prov \<noteq> Never \<and> estimateGas c m a \<noteq> Never \<longrightarrow>
      (\<exists>g. estimateContractCall lib prov c m a = Resolved g)) \<and>
   gasLimit default_estimate = 200000 \<and>
   gasPrice default_estimate = 20 * 10 ^ 9 \<and>
   maxFeePerGas default_estimate = None \<and>
   maxPriorityFeePerGas default_estimate = None"
proof -
  have 1: "\<forall>e. estimateContractCall lib prov c m a \<noteq> Rejected e"
    by (cases "estimate_try lib prov c m a") (simp_all add: estimateContractCall_def)
  have 2: "\<forall>e. getFeeData prov = Rejected e \<longrightarrow>
      estimateContractCall lib prov c m a = Resolved default_estimate"
    by (simp add: estimateContractCall_def estimate_try_def)
  have 3: "\<forall>fd e. getFeeData prov = Resolved fd \<and> log_fee_data lib fd = Inl e \<longrightarrow>
      estimateContractCall lib prov c m a = Resolved default_estimate"
    by (simp add: estimateContractCall_def estimate_try_def)
  have 4: "\<forall>fd e. getFeeData prov = Resolved fd \<and> log_fee_data lib fd = Inr () \<and>
      estimateGas c m a = Rejected e \<longrightarrow>
      estimateContractCall lib prov c m a = Resolved default_estimate"
    by (simp add: estimateContractCall_def estimate_try_def)
  have 5: "\<forall>fd raw e. getFeeData prov = Resolved fd \<and> log_fee_data lib fd = Inr () \<and>
      estimateGas c m a = Resolved raw \<and>
      formatEther lib (estimatedCostWei raw fd) = Inl e \<longrightarrow>
      estimateContractCall lib prov c m a = Resolved default_estimate"
    by (simp add: estimateContractCall_def estimate_try_def)
  have 6: "getFeeData prov \<noteq> Never \<and> estimateGas c m a \<noteq> Never \<longrightarrow>
      (\<exists>g. estimateContractCall lib prov c m a = Resolved g)"
  proof
    assume settle: "getFeeData prov \<noteq> Never \<and> estimateGas c m a \<noteq> Never"
    have "estimate_try lib prov c m a \<noteq> Never"
      using settle unfolding estimate_try_def
      by (simp split: promise.splits sum.splits)
    then show "\<exists>g. estimateContractCall lib prov c m a = Resolved g"
      by (cases "estimate_try lib prov c m a") (simp_all add: estimateContractCall_def)
  qed
  have 7: "gasLimit default_estimate = 200000 \<and>
   gasPrice default_estimate = 20 * 10 ^ 9 \<and>
   maxFeePerGas default_estimate = None \<and>
   maxPriorityFeePerGas default_estimate = None"
    by (simp add: default_estimate_def parseUnits_gwei_def)
  from 1 2 3 4 5 6 7 show ?thesis by blast
qed

theorem estimateContractCall_never_raises_witness:
  "getFeeData (sample_provider (Rejected (new_Error (Some ''network down''))) Never) =
     Rejected (new_Error (Some ''network down'')) \<and>
   estimateContractCall sample_library
     (sample_provider (Rejected (new_Error (Some ''network down''))) Never)
     (sample_contract (Resolved 100000) Never) ''submitCreditData'' [] =
   Resolved default_estimate \<and>
   getFeeData (sample_provider (Resolved legacy_fees) Never) = Resolved legacy_fees \<and>
   log_fee_data sample_library legacy_fees = Inr () \<and>
   estimateGas (sample_contract (Rejected (new_Error (Some ''execution reverted''))) Never)
     ''submitCreditData'' [] = Rejected (new_Error (Some ''execution reverted'')) \<and>
   estimateContractCall sample_library (sample_provider (Resolved legacy_fees) Never)
     (sample_contract (Rejected (new_Error (Some ''execution reverted''))) Never)
     ''submitCreditData'' [] =
   Resolved default_estimate \<and>
   estimateGas (sample_contract (Resolved 100000) Never) ''submitCreditData'' [] =
     Resolved 100000 \<and>
   formatEther (sample_library\<lparr>formatEther := \<lambda>v. Inl (new_Error (Some ''overflow''))\<rparr>)
     (estimatedCostWei 100000 legacy_fees) = Inl (new_Error (Some ''overflow'')) \<and>
   estimateContractCall
     (sample_library\<lparr>formatEther := \<lambda>v. Inl (new_Error (Some ''overflow''))\<rparr>)
     (sample_provider (Resolved legacy_fees) Never)
     (sample_contract (Resolved 100000) Never) ''submitCreditData'' [] =
   Resolved default_estimate \<and>
   (\<exists>g. estimateContractCall sample_library (sample_provider (Resolved legacy_fees) Never)
     (sample_contract (Resolved 100000) Never) ''submitCreditData'' [] = Resolved g)"
proof -
  let ?down = "new_Error (Some ''network down'')"
  let ?rev = "new_Error (Some ''execution reverted'')"
  let ?lib = "sample_library\<lparr>formatEther := \<lambda>v. Inl (new_Error (Some ''overflow''))\<rparr>"
  let ?p = "sample_provider (Resolved legacy_fees) Never"
  let ?c = "sample_contract (Resolved 100000) Never"
  have a: "getFeeData (sample_provider (Rejected ?down) Never) = Rejected ?down"
    by (simp add: sample_provider_def)
  have b: "getFeeData ?p = Resolved legacy_fees"
    by (simp add: sample_provider_def)
  have l: "log_fee_data sample_library legacy_fees = Inr ()"
    by (simp add: log_fee_data_def log_field_def sample_library_def legacy_fees_def)
  have l': "log_fee_data ?lib legacy_fees = Inr ()"
    by (simp add: log_fee_data_def log_field_def sample_library_def legacy_fees_def)
  have r: "estimateGas (sample_contract (Rejected ?rev) Never) ''submitCreditData'' [] =
     Rejected ?rev"
    by (simp add: sample_contract_def)
  have g: "estimateGas ?c ''submitCreditData'' [] = Resolved 100000"
    by (simp add: sample_contract_def)
  have f: "formatEther ?lib (estimatedCostWei 100000 legacy_fees) =
     Inl (new_Error (Some ''overflow''))"
    by simp
  have n: "getFeeData ?p \<noteq> Never \<and> estimateGas ?c ''submitCreditData'' [] \<noteq> Never"
    by (simp add: sample_provider_def sample_contract_def)
  note t1 = estimateContractCall_never_raises
    [of sample_library "sample_provider (Rejected ?down) Never" ?c "''submitCreditData''" "[]"]
  note t2 = estimateContractCall_never_raises
    [of sample_library ?p "sample_contract (Rejected ?rev) Never" "''submitCreditData''" "[]"]
  note t3 = estimateContractCall_never_raises [of ?lib ?p ?c "''submitCreditData''" "[]"]
  note t4 = estimateContractCall_never_raises [of sample_library ?p ?c "''submitCreditData''" "[]"]
  from t1 a have 1: "estimateContractCall sample_library
     (sample_provider (Rejected ?down) Never) ?c ''submitCreditData'' [] =
     Resolved default_estimate" by blast
  from t2 b l r have 2: "estimateContractCall sample_library ?p
     (sample_contract (Rejected ?rev) Never) ''submitCreditData'' [] =
     Resolved default_estimate" by blast
  from t3 b l' g f have 3: "estimateContractCall ?lib ?p ?c ''submitCreditData'' [] =
     Resolved default_estimate" by blast
  from t4 n have 4: "\<exists>g. estimateContractCall sample_library ?p ?c ''submitCreditData'' [] =
     Resolved g" by blast
  from a 1 b l r 2 g f 3 4 show ?thesis by blast
qed

section \<open>Fee-scheme selection\<close>

text \<open>
  C5. The claim: every estimate has exactly one fee scheme populated, the legacy price
  alone or the dynamic pair alone with the max fee at least the priority fee. On a
  network that reports all three fee values the estimate carries the legacy price
  together with the dynamic pair.
\<close>

theorem both_fee_schemes_populated:
  "estimateContractCall sample_library (sample_provider (Resolved dynamic_fees) Never)
     (sample_contract (Resolved 100000) Never) ''submitCreditData'' [] =
   Resolved
     \<lparr>gasLimit = 120000, gasPrice = 20000000000, maxFeePerGas = Some 40000000000,
      maxPriorityFeePerGas = Some 1000000000, estimatedCost = ''0.002400'',
      estimatedCostUSD = None\<rparr> \<and>
   \<not> one_fee_scheme
     \<lparr>gasLimit = 120000, gasPrice = 20000000000, maxFeePerGas = Some 40000000000,
      maxPriorityFeePerGas = Some 1000000000, estimatedCost = ''0.002400'',
      estimatedCostUSD = None\<rparr>"
  by (simp add: estimateContractCall_def estimate_try_def sample_library_def
      sample_provider_def sample_contract_def dynamic_fees_def log_fee_data_def log_field_def
      estimatedCostWei_def bufferedGasLimit_def bigint_div_def selected_gasPrice_def
      selected_maxFeePerGas_def js_or_def or_undefined_def truthy_def one_fee_scheme_def)

text \<open>
  C5, as the code has it. An estimate always carries the legacy \<open>gasPrice\<close> field, and
  a dynamic-fee field that is set is never 0. The default estimate has the legacy price
  alone, fixed at 20 gwei whatever the network reports. A computed estimate takes the
  legacy price from the network (0 when there is none); its \<open>maxFeePerGas\<close> is the network's max fee when that is not 0, else the legacy
  price when that is above 0, else unset, so a positive legacy price always comes with a
  max fee; its \<open>maxPriorityFeePerGas\<close> is the network's value when not 0, not compared
  with the max fee. The overrides that the executor derives from an estimate never
  carry \<open>gasPrice\<close> and \<open>maxFeePerGas\<close> together.
\<close>

theorem fee_fields_of_estimate:
  assumes "estimateContractCall lib prov c m a = Resolved g"
  shows "maxFeePerGas g \<noteq> Some 0 \<and> maxPriorityFeePerGas g \<noteq> Some 0 \<and>
    (ov_gasPrice (overrides_of g) = None \<or> ov_maxFeePerGas (overrides_of g) = None) \<and>
    (g = default_estimate \<and> maxFeePerGas g = None \<and> maxPriorityFeePerGas g = None \<and>
       gasPrice g = 20000000000 \<or>
     (\<exists>fd. getFeeData prov = Resolved fd \<and>
        gasPrice g = js_or (fee_gasPrice fd) 0 \<and>
        maxFeePerGas g =
          (if truthy (fee_maxFeePerGas fd) then fee_maxFeePerGas fd
           else if 0 < gasPrice g then Some (gasPrice g) else None) \<and>
        (0 < gasPrice g \<longrightarrow> maxFeePerGas g \<noteq> None) \<and>
        maxPriorityFeePerGas g = or_undefined (fee_maxPriorityFeePerGas fd)))"
proof -
  have ov: "ov_gasPrice (overrides_of g) = None \<or> ov_maxFeePerGas (overrides_of g) = None"
    if "maxFeePerGas g \<noteq> Some 0"
    using that by (cases "maxFeePerGas g") (simp_all add: overrides_of_def truthy_def)
  have nz: "or_undefined x \<noteq> Some 0" for x
    by (cases x) (simp_all add: or_undefined_def)
  from estimateContractCall_Resolved [OF assms]
  show ?thesis
  proof
    assume d: "g = default_estimate"
    have dd: "maxFeePerGas g = None" "maxPriorityFeePerGas g = None"
      "gasPrice g = 20000000000"
      by (simp_all add: d default_estimate_def parseUnits_gwei_def)
    have z: "maxFeePerGas g \<noteq> Some 0" "maxPriorityFeePerGas g \<noteq> Some 0"
      using dd by simp_all
    from d dd z ov [OF z(1)] show ?thesis by blast
  next
    assume "estimate_try lib prov c m a = Resolved g"
    from estimate_try_Resolved [OF this] obtain fd raw s where
      fd: "getFeeData prov = Resolved fd" and
      g: "g = \<lparr>gasLimit = bufferedGasLimit raw, gasPrice = selected_gasPrice fd,
          maxFeePerGas = or_undefined (selected_maxFeePerGas fd),
          maxPriorityFeePerGas = or_undefined (fee_maxPriorityFeePerGas fd),
          estimatedCost = toFixed6 lib s, estimatedCostUSD = None\<rparr>"
      by blast
    have gp: "gasPrice g = js_or (fee_gasPrice fd) 0"
      by (simp add: g selected_gasPrice_def)
    have mp: "maxPriorityFeePerGas g = or_undefined (fee_maxPriorityFeePerGas fd)"
      by (simp add: g)
    have mf: "maxFeePerGas g =
          (if truthy (fee_maxFeePerGas fd) then fee_maxFeePerGas fd
           else if 0 < gasPrice g then Some (gasPrice g) else None)"
      by (cases "fee_maxFeePerGas fd")
        (simp_all add: g selected_maxFeePerGas_def or_undefined_def truthy_def)
    have pos: "0 < gasPrice g \<longrightarrow> maxFeePerGas g \<noteq> None"
      unfolding mf by (cases "fee_maxFeePerGas fd") (simp_all add: truthy_def)
    have z1: "maxFeePerGas g \<noteq> Some 0" by (simp add: g nz)
    have z2: "maxPriorityFeePerGas g \<noteq> Some 0" by (simp add: g nz)
    from fd gp mf pos mp have "\<exists>fd. getFeeData prov = Resolved fd \<and>
        gasPrice g = js_or (fee_gasPrice fd) 0 \<and>
        maxFeePerGas g =
          (if truthy (fee_maxFeePerGas fd) then fee_maxFeePerGas fd
           else if 0 < gasPrice g then Some (gasPrice g) else None) \<and>
        (0 < gasPrice g \<longrightarrow> maxFeePerGas g \<noteq> None) \<and>
        maxPriorityFeePerGas g = or_undefined (fee_maxPriorityFeePerGas fd)"
      by blast
    with z1 z2 ov [OF z1] show ?thesis by blast
  qed
qed

theorem fee_fields_of_estimate_witness:
  "estimateContractCall sample_library (sample_provider (Resolved legacy_fees) Never)
     (sample_contract (Resolved 100000) Never) ''submitCreditData'' [] =
   Resolved
     \<lparr>gasLimit = 120000, gasPrice = 20000000000, maxFeePerGas = Some 20000000000,
      maxPriorityFeePerGas = None, estimatedCost = ''0.002400'', estimatedCostUSD = None\<rparr> \<and>
   ov_gasPrice (overrides_of
     \<lparr>gasLimit = 120000, gasPrice = 20000000000, maxFeePerGas = Some 20000000000,
      maxPriorityFeePerGas = None, estimatedCost = ''0.002400'', estimatedCostUSD = None\<rparr>) =
     None \<and>
   (0::int) < 20000000000"
proof -
  let ?g = "\<lparr>gasLimit = 120000, gasPrice = 20000000000, maxFeePerGas = Some 20000000000,
      maxPriorityFeePerGas = None, estimatedCost = ''0.002400'', estimatedCostUSD = None\<rparr>"
  have h: "estimateContractCall sample_library (sample_provider (Resolved legacy_fees) Never)
     (sample_contract (Resolved 100000) Never) ''submitCreditData'' [] = Resolved ?g"
    by (simp add: estimateContractCall_def estimate_try_def sample_library_def
      sample_provider_def sample_contract_def legacy_fees_def log_fee_data_def log_field_def
      estimatedCostWei_def bufferedGasLimit_def bigint_div_def selected_gasPrice_def
      selected_maxFeePerGas_def js_or_def or_undefined_def truthy_def)
  note t = fee_fields_of_estimate [OF h]
  from t [THEN conjunct2, THEN conjunct2, THEN conjunct1] have
    "ov_gasPrice (overrides_of ?g) = None \<or> ov_maxFeePerGas (overrides_of ?g) = None" .
  then have "ov_gasPrice (overrides_of ?g) = None"
    by (simp add: overrides_of_def)
  with h show ?thesis by simp
qed

text \<open>
  C8. The claim: whenever the network reports no max fee and a legacy gas price above 0,
  the returned estimate has \<open>maxFeePerGas\<close> set to the legacy price and a cost computed
  from the buffered gas limit and that fee. When a later step of the try block throws,
  the catch block returns the default estimate instead: with legacy fee data of 20 gwei
  and a gas-limit estimation that reverts, the returned estimate has no \<open>maxFeePerGas\<close>
  and the fixed cost text 0.004.
\<close>

theorem fallback_without_max_fee:
  "getFeeData (sample_provider (Resolved legacy_fees) Never) = Resolved legacy_fees \<and>
   \<not> truthy (fee_maxFeePerGas legacy_fees) \<and>
   fee_gasPrice legacy_fees = Some 20000000000 \<and> (0::int) < 20000000000 \<and>
   estimateContractCall sample_library (sample_provider (Resolved legacy_fees) Never)
     (sample_contract (Rejected call_reverted) Never) ''submitCreditData'' [] =
     Resolved default_estimate \<and>
   maxFeePerGas default_estimate = None \<and>
   maxFeePerGas default_estimate \<noteq> Some 20000000000 \<and>
   estimatedCost default_estimate = ''0.004''"
  by (simp add: estimateContractCall_def estimate_try_def sample_library_def
      sample_provider_def sample_contract_def legacy_fees_def log_fee_data_def log_field_def
      truthy_def default_estimate_def)

text \<open>
  C8, as the code has it. On the computed path (the try block ran to its return), when
  the network reports no max fee (or a zero one) and a legacy gas price above 0, the
  estimate has \<open>maxFeePerGas\<close> set to the legacy price, and its estimated cost is the
  formatted product of the buffered gas limit and that price. In general the cost of a
  computed estimate is formatted from the buffered gas limit times the returned max fee
  when set, else times the legacy price.
\<close>

theorem legacy_price_as_max_fee:
  assumes "estimate_try lib prov c m a = Resolved g"
    and "getFeeData prov = Resolved fd"
  shows "estimateContractCall lib prov c m a = Resolved g \<and>
    (\<forall>p. \<not> truthy (fee_maxFeePerGas fd) \<and> fee_gasPrice fd = Some p \<and> 0 < p \<longrightarrow>
       maxFeePerGas g = Some p \<and>
       (\<exists>s. formatEther lib (gasLimit g * p) = Inr s \<and> estimatedCost g = toFixed6 lib s)) \<and>
    (\<exists>s. formatEther lib
            (gasLimit g * (case maxFeePerGas g of Some f \<Rightarrow> f | None \<Rightarrow> gasPrice g)) = Inr s \<and>
          estimatedCost g = toFixed6 lib s)"
proof -
  from estimate_try_Resolved [OF assms(1)] obtain fd' raw s where
    fd': "getFeeData prov = Resolved fd'" and
    s: "formatEther lib (estimatedCostWei raw fd') = Inr s" and
    g: "g = \<lparr>gasLimit = bufferedGasLimit raw, gasPrice = selected_gasPrice fd',
          maxFeePerGas = or_undefined (selected_maxFeePerGas fd'),
          maxPriorityFeePerGas = or_undefined (fee_maxPriorityFeePerGas fd'),
          estimatedCost = toFixed6 lib s, estimatedCostUSD = None\<rparr>"
    by blast
  from fd' assms(2) have [simp]: "fd' = fd" by simp
  have cost: "estimatedCost g = toFixed6 lib s" by (simp add: g)
  have wei: "estimatedCostWei raw fd =
      gasLimit g * (case maxFeePerGas g of Some f \<Rightarrow> f | None \<Rightarrow> gasPrice g)"
    by (cases "selected_maxFeePerGas fd")
      (simp_all add: g estimatedCostWei_def js_or_def or_undefined_def)
  have general: "\<exists>s. formatEther lib
            (gasLimit g * (case maxFeePerGas g of Some f \<Rightarrow> f | None \<Rightarrow> gasPrice g)) = Inr s \<and>
          estimatedCost g = toFixed6 lib s"
    using s cost wei by simp
  have legacy: "\<forall>p. \<not> truthy (fee_maxFeePerGas fd) \<and> fee_gasPrice fd = Some p \<and> 0 < p \<longrightarrow>
       maxFeePerGas g = Some p \<and>
       (\<exists>s. formatEther lib (gasLimit g * p) = Inr s \<and> estimatedCost g = toFixed6 lib s)"
  proof (intro allI impI)
    fix p
    assume p: "\<not> truthy (fee_maxFeePerGas fd) \<and> fee_gasPrice fd = Some p \<and> 0 < p"
    then have "selected_maxFeePerGas fd = Some p"
      by (simp add: selected_maxFeePerGas_def selected_gasPrice_def js_or_def)
    with p have m: "maxFeePerGas g = Some p"
      by (simp add: g or_undefined_def)
    with general show "maxFeePerGas g = Some p \<and>
       (\<exists>s. formatEther lib (gasLimit g * p) = Inr s \<and> estimatedCost g = toFixed6 lib s)"
      by simp
  qed
  from estimateContractCall_computed [OF assms(1)] legacy general show ?thesis by blast
qed

theorem legacy_price_as_max_fee_witness:
  "estimate_try exact_library (sample_provider (Resolved legacy_fees) Never)
     (sample_contract (Resolved 100000) Never) ''submitCreditData'' [] =
   Resolved
     \<lparr>gasLimit = 120000, gasPrice = 20000000000, maxFeePerGas = Some 20000000000,
      maxPriorityFeePerGas = None, estimatedCost = ''0.002400'', estimatedCostUSD = None\<rparr> \<and>
   getFeeData (sample_provider (Resolved legacy_fees) Never) = Resolved legacy_fees \<and>
   \<not> truthy (fee_maxFeePerGas legacy_fees) \<and>
   fee_gasPrice legacy_fees = Some 20000000000 \<and> (0::int) < 20000000000 \<and>
   formatEther exact_library (120000 * 20000000000) = Inr ''0.0024'' \<and>
   toFixed6 exact_library ''0.0024'' = ''0.002400'' \<and>
   (\<exists>s. formatEther exact_library (120000 * 20000000000) = Inr s \<and>
        ''0.002400'' = toFixed6 exact_library s)"
proof -
  let ?g = "\<lparr>gasLimit = 120000, gasPrice = 20000000000, maxFeePerGas = Some 20000000000,
      maxPriorityFeePerGas = None, estimatedCost = ''0.002400'', estimatedCostUSD = None\<rparr>"
  have h1: "estimate_try exact_library (sample_provider (Resolved legacy_fees) Never)
     (sample_contract (Resolved 100000) Never) ''submitCreditData'' [] = Resolved ?g"
    by (simp add: estimate_try_def exact_library_def
      sample_provider_def sample_contract_def legacy_fees_def log_fee_data_def log_field_def
      estimatedCostWei_def bufferedGasLimit_def bigint_div_def selected_gasPrice_def
      selected_maxFeePerGas_def js_or_def or_undefined_def truthy_def)
  have h2: "getFeeData (sample_provider (Resolved legacy_fees) Never) = Resolved legacy_fees"
    by (simp add: sample_provider_def)
  have h3: "\<not> truthy (fee_maxFeePerGas legacy_fees) \<and>
      fee_gasPrice legacy_fees = Some 20000000000 \<and> (0::int) < 20000000000"
    by (simp add: legacy_fees_def truthy_def)
  have f: "formatEther exact_library (120000 * 20000000000) = Inr ''0.0024''"
    "toFixed6 exact_library ''0.0024'' = ''0.002400''"
    by (simp_all add: exact_library_def)
  from legacy_price_as_max_fee [OF h1 h2] h3 have
    "\<exists>s. formatEther exact_library (gasLimit ?g * 20000000000) = Inr s \<and>
         estimatedCost ?g = toFixed6 exact_library s"
    by blast
  then have "\<exists>s. formatEther exact_library (120000 * 20000000000) = Inr s \<and>
        ''0.002400'' = toFixed6 exact_library s"
    by simp
  with h1 h2 h3 f show ?thesis by blast
qed

section \<open>Status updates of the tracker and the executor\<close>

lemma message_includes_iff: "message_includes e pat \<longleftrightarrow> occurs_in pat (message e)"
  by (cases "message e") (simp_all add: message_includes_def occurs_in_def str_includes_iff)

lemma track_try_cases:
  "(track_try lib prov h = Never \<and> waitForTransaction prov h 1 = Never) \<or>
   (\<exists>e. track_try lib prov h = Rejected e) \<or>
   (\<exists>final r. track_try lib prov h = Resolved (final, r) \<and>
      waitForTransaction prov h 1 = Resolved (Some r) \<and> hash final = Some h \<and>
      status final = (if receipt_status r = Some 1 then confirmed else failed) \<and>
      confirmations final = 1 \<and> error final = None)"
proof (cases "waitForTransaction prov h 1")
  case (Resolved w)
  show ?thesis
  proof (cases w)
    case None
    with Resolved show ?thesis by (simp add: track_try_def)
  next
    case (Some r)
    show ?thesis
    proof (cases "formatUnits lib (receipt_gasUsed r) ''wei''")
      case (Inl e)
      with Resolved Some show ?thesis by (simp add: track_try_def)
    next
      case (Inr used)
      show ?thesis
      proof (cases "receipt_gasPrice r = 0")
        case True
        with Resolved Some Inr show ?thesis by (simp add: track_try_def)
      next
        case False
        with Resolved Some Inr show ?thesis
          by (cases "formatUnits lib (receipt_gasPrice r) ''gwei''")
            (simp_all add: track_try_def)
      qed
    qed
  qed
next
  case (Rejected e)
  then show ?thesis by (simp add: track_try_def)
next
  case Never
  then show ?thesis by (simp add: track_try_def)
qed

lemma trackTransaction_cases:
  "(trackTransaction lib prov h = ([pending_update (Some h)], Never) \<and>
      waitForTransaction prov h 1 = Never) \<or>
   (\<exists>e. trackTransaction lib prov h =
      ([pending_update (Some h), failed_update (Some h) (message e)], Rejected e)) \<or>
   (\<exists>final r. trackTransaction lib prov h = ([pending_update (Some h), final], Resolved r) \<and>
      waitForTransaction prov h 1 = Resolved (Some r) \<and> hash final = Some h \<and>
      status final = (if receipt_status r = Some 1 then confirmed else failed) \<and>
      confirmations final = 1 \<and> error final = None)"
  using track_try_cases [of lib prov h]
  by (elim disjE exE conjE) (simp_all add: trackTransaction_def)

lemma trackTransaction_statuses:
  "(trackTransaction lib prov h = ([pending_update (Some h)], Never)) \<or>
   (\<exists>ds e. trackTransaction lib prov h = (ds, Rejected e) \<and>
      map status ds = [pending, failed]) \<or>
   (\<exists>ds r. trackTransaction lib prov h = (ds, Resolved r) \<and>
      (map status ds = [pending, confirmed] \<or> map status ds = [pending, failed]))"
  using trackTransaction_cases [of lib prov h]
  by (elim disjE exE conjE)
    (simp_all add: pending_update_def failed_update_def)

text \<open>The executor's paths once the estimate is there; the estimate itself never
  rejects.\<close>

lemma executeTransaction_after_estimate:
  assumes "estimateContractCall lib prov c m a = Resolved g"
  shows "executeTransaction lib prov c m a opts =
    (case send c m a (overrides_of g) of
       Never \<Rightarrow> ([pending_update None], Never)
     | Rejected e \<Rightarrow> execute_catch [pending_update None] e
     | Resolved tx \<Rightarrow>
         (case trackTransaction lib prov (tx_hash tx) of
            (delivered, Never) \<Rightarrow> (pending_update None # delivered, Never)
          | (delivered, Rejected e) \<Rightarrow> execute_catch (pending_update None # delivered) e
          | (delivered, Resolved receipt) \<Rightarrow>
              (pending_update None # delivered, Resolved receipt)))"
  using assms by (simp add: executeTransaction_def)

lemma executeTransaction_estimate_hangs:
  assumes "estimateContractCall lib prov c m a = Never"
  shows "executeTransaction lib prov c m a opts = ([], Never)"
  using assms by (simp add: executeTransaction_def)

lemma estimateContractCall_not_Rejected:
  "estimateContractCall lib prov c m a \<noteq> Rejected e"
  by (cases "estimate_try lib prov c m a") (simp_all add: estimateContractCall_def)

text \<open>Neither option reaches the computation.\<close>

lemma executeTransaction_ignores_options:
  "executeTransaction lib prov c m a opts = executeTransaction lib prov c m a opts'"
  by (simp add: executeTransaction_def)

lemma executeTransaction_statuses:
  "(snd (executeTransaction lib prov c m a opts) = Never \<and>
      (map status (fst (executeTransaction lib prov c m a opts)) = [] \<or>
       map status (fst (executeTransaction lib prov c m a opts)) = [pending] \<or>
       map status (fst (executeTransaction lib prov c m a opts)) = [pending, pending])) \<or>
   ((\<exists>e. snd (executeTransaction lib prov c m a opts) = Rejected e) \<and>
      (map status (fst (executeTransaction lib prov c m a opts)) = [pending, failed] \<or>
       map status (fst (executeTransaction lib prov c m a opts)) =
         [pending, pending, failed, failed])) \<or>
   ((\<exists>r. snd (executeTransaction lib prov c m a opts) = Resolved r) \<and>
      (map status (fst (executeTransaction lib prov c m a opts)) =
         [pending, pending, confirmed] \<or>
       map status (fst (executeTransaction lib prov c m a opts)) =
         [pending, pending, failed]))"
proof (cases "estimateContractCall lib prov c m a")
  case (Resolved g)
  note ex = executeTransaction_after_estimate [OF Resolved, of opts]
  show ?thesis
  proof (cases "send c m a (overrides_of g)")
    case (Resolved tx)
    from trackTransaction_statuses [of lib prov "tx_hash tx"] show ?thesis
      by (elim disjE exE conjE)
        (simp_all add: ex Resolved execute_catch_def pending_update_def failed_update_def)
  next
    case (Rejected e)
    then show ?thesis
      by (simp add: ex execute_catch_def pending_update_def failed_update_def)
  next
    case Never
    then show ?thesis by (simp add: ex pending_update_def)
  qed
next
  case (Rejected e)
  then show ?thesis by (simp add: estimateContractCall_not_Rejected)
next
  case Never
  then show ?thesis by (simp add: executeTransaction_estimate_hangs)
qed

lemma trackTransaction_receipt:
  assumes "trackTransaction lib prov h = (ds, Resolved r)"
  shows "\<exists>final. ds = [pending_update (Some h), final] \<and>
    status final = (if receipt_status r = Some 1 then confirmed else failed) \<and>
    confirmations final = 1 \<and> error final = None"
  using trackTransaction_cases [of lib prov h] assms
  by (elim disjE exE conjE) auto

lemma executeTransaction_wait_hangs:
  assumes "estimateContractCall lib prov c m a = Resolved g"
    and "send c m a (overrides_of g) = Resolved tx"
    and "waitForTransaction prov (tx_hash tx) 1 = Never"
  shows "executeTransaction lib prov c m a opts =
    ([pending_update None, pending_update (Some (tx_hash tx))], Never)"
  using assms
  by (simp add: executeTransaction_after_estimate trackTransaction_def track_try_def)

text \<open>
  C2. The claim: the updates of one invocation are \<open>pending\<close> first, at most one
  \<open>confirming\<close>, exactly one terminal update last and none after it, also when the
  confirmation wait raises. When the wait raises, the tracker delivers \<open>failed\<close> and
  rethrows, and the executor's catch block delivers \<open>failed\<close> again: two terminal
  updates, the second after a terminal one.
\<close>

theorem failed_delivered_twice:
  "map status (fst (executeTransaction sample_library
     (sample_provider (Resolved legacy_fees)
        (Rejected (new_Error (Some ''transaction was replaced''))))
     (sample_contract (Resolved 100000) (Resolved sample_tx)) ''submitCreditData'' []
     \<lparr>opt_confirmations = None, opt_timeout = None\<rparr>)) =
   [pending, pending, failed, failed] \<and>
   \<not> ordered_updates [pending, pending, failed, failed]"
  by (simp add: executeTransaction_def estimateContractCall_def estimate_try_def
      sample_library_def sample_provider_def sample_contract_def legacy_fees_def
      log_fee_data_def log_field_def sample_tx_def trackTransaction_def track_try_def
      execute_catch_def pending_update_def failed_update_def ordered_updates_def terminal_def)

text \<open>
  C2, as the code has it, for a callback that does not throw. A settled call of
  \<^verbatim>\<open>trackTransaction\<close> has delivered exactly two updates, \<open>pending\<close> and then one
  terminal update, in the order the claim asks for. A call of \<^verbatim>\<open>executeTransaction\<close>
  that returns a receipt has delivered \<open>pending\<close>, \<open>pending\<close> (its own and the
  tracker's) and then one terminal update; one that fails has delivered \<open>pending\<close>,
  \<open>failed\<close> when the submission was rejected and \<open>pending\<close>, \<open>pending\<close>, \<open>failed\<close>,
  \<open>failed\<close> when the tracker raised; one that has not settled has delivered \<open>pending\<close>
  updates only. So \<open>pending\<close> is always first, \<open>confirming\<close> never occurs and no
  \<open>pending\<close> follows a terminal update.
\<close>

theorem update_order:
  "(snd (trackTransaction lib prov h) \<noteq> Never \<longrightarrow>
      length (fst (trackTransaction lib prov h)) = 2 \<and>
      ordered_updates (map status (fst (trackTransaction lib prov h)))) \<and>
   ((\<exists>r. snd (executeTransaction lib prov c m a opts) = Resolved r) \<longrightarrow>
      (map status (fst (executeTransaction lib prov c m a opts)) =
         [pending, pending, confirmed] \<or>
       map status (fst (executeTransaction lib prov c m a opts)) =
         [pending, pending, failed]) \<and>
      ordered_updates (map status (fst (executeTransaction lib prov c m a opts)))) \<and>
   ((\<exists>e. snd (executeTransaction lib prov c m a opts) = Rejected e) \<longrightarrow>
      map status (fst (executeTransaction lib prov c m a opts)) = [pending, failed] \<or>
      map status (fst (executeTransaction lib prov c m a opts)) =
        [pending, pending, failed, failed]) \<and>
   (snd (executeTransaction lib prov c m a opts) = Never \<longrightarrow>
      map status (fst (executeTransaction lib prov c m a opts)) = [] \<or>
      map status (fst (executeTransaction lib prov c m a opts)) = [pending] \<or>
      map status (fst (executeTransaction lib prov c m a opts)) = [pending, pending])"
proof -
  have ord: "ordered_updates [pending, confirmed]" "ordered_updates [pending, failed]"
    "ordered_updates [pending, pending, confirmed]"
    "ordered_updates [pending, pending, failed]"
    by (simp_all add: ordered_updates_def terminal_def)
  have t: "snd (trackTransaction lib prov h) \<noteq> Never \<longrightarrow>
      length (fst (trackTransaction lib prov h)) = 2 \<and>
      ordered_updates (map status (fst (trackTransaction lib prov h)))"
    using trackTransaction_statuses [of lib prov h]
  proof (elim disjE exE conjE)
    assume "trackTransaction lib prov h = ([pending_update (Some h)], Never)"
    then show ?thesis by simp
  next
    fix ds e
    assume tr: "trackTransaction lib prov h = (ds, Rejected e)"
      and st: "map status ds = [pending, failed]"
    from st have "length (map status ds) = 2" by simp
    then have "length ds = 2" by simp
    with tr st ord(2) show ?thesis by simp
  next
    fix ds r
    assume tr: "trackTransaction lib prov h = (ds, Resolved r)"
      and st: "map status ds = [pending, confirmed]"
    from st have "length (map status ds) = 2" by simp
    then have "length ds = 2" by simp
    with tr st ord(1) show ?thesis by simp
  next
    fix ds r
    assume tr: "trackTransaction lib prov h = (ds, Resolved r)"
      and st: "map status ds = [pending, failed]"
    from st have "length (map status ds) = 2" by simp
    then have "length ds = 2" by simp
    with tr st ord(2) show ?thesis by simp
  qed
  have x: "((\<exists>r. snd (executeTransaction lib prov c m a opts) = Resolved r) \<longrightarrow>
      (map status (fst (executeTransaction lib prov c m a opts)) =
         [pending, pending, confirmed] \<or>
       map status (fst (executeTransaction lib prov c m a opts)) =
         [pending, pending, failed]) \<and>
      ordered_updates (map status (fst (executeTransaction lib prov c m a opts)))) \<and>
   ((\<exists>e. snd (executeTransaction lib prov c m a opts) = Rejected e) \<longrightarrow>
      map status (fst (executeTransaction lib prov c m a opts)) = [pending, failed] \<or>
      map status (fst (executeTransaction lib prov c m a opts)) =
        [pending, pending, failed, failed]) \<and>
   (snd (executeTransaction lib prov c m a opts) = Never \<longrightarrow>
      map status (fst (executeTransaction lib prov c m a opts)) = [] \<or>
      map status (fst (executeTransaction lib prov c m a opts)) = [pending] \<or>
      map status (fst (executeTransaction lib prov c m a opts)) = [pending, pending])"
    using executeTransaction_statuses [of lib prov c m a opts] ord(3,4)
    by (elim disjE exE conjE) simp_all
  from t x show ?thesis by (rule conjI)
qed

theorem update_order_witness:
  "snd (trackTransaction sample_library
      (sample_provider (Resolved legacy_fees) (Resolved (Some (sample_receipt (Some 1)))))
      ''0xabc'') \<noteq> Never \<and>
   ordered_updates [pending, confirmed] \<and>
   executeTransaction sample_library
      (sample_provider (Resolved legacy_fees) (Resolved (Some (sample_receipt (Some 0)))))
      (sample_contract (Resolved 100000) (Resolved sample_tx)) ''submitCreditData'' []
      no_options =
     ([pending_update None, pending_update (Some ''0xabc''),
       \<lparr>hash = Some ''0xabc'', status = failed, confirmations = 1, gasUsed = Some ''1.0'',
        effectiveGasPrice = Some ''1.0'', blockNumber = Some 7, error = None\<rparr>],
      Resolved (sample_receipt (Some 0))) \<and>
   ordered_updates [pending, pending, failed] \<and>
   snd (executeTransaction sample_library (sample_provider (Resolved legacy_fees) Never)
      (sample_contract (Resolved 100000) (Rejected (new_Error (Some ''nonce too low''))))
      ''submitCreditData'' [] no_options) = Rejected (new_Error (Some ''nonce too low'')) \<and>
   map status (fst (executeTransaction sample_library
      (sample_provider (Resolved legacy_fees) Never)
      (sample_contract (Resolved 100000) (Rejected (new_Error (Some ''nonce too low''))))
      ''submitCreditData'' [] no_options)) = [pending, failed] \<and>
   snd (executeTransaction sample_library (sample_provider (Resolved legacy_fees) Never)
      (sample_contract (Resolved 100000) (Resolved sample_tx))
      ''submitCreditData'' [] no_options) = Never \<and>
   map status (fst (executeTransaction sample_library
      (sample_provider (Resolved legacy_fees) Never)
      (sample_contract (Resolved 100000) (Resolved sample_tx))
      ''submitCreditData'' [] no_options)) = [pending, pending]"
proof -
  let ?mined = "sample_provider (Resolved legacy_fees) (Resolved (Some (sample_receipt (Some 1))))"
  let ?reverted = "sample_provider (Resolved legacy_fees) (Resolved (Some (sample_receipt (Some 0))))"
  let ?quiet = "sample_provider (Resolved legacy_fees) Never"
  let ?sent = "sample_contract (Resolved 100000) (Resolved sample_tx)"
  let ?refused = "sample_contract (Resolved 100000) (Rejected (new_Error (Some ''nonce too low'')))"
  have t: "trackTransaction sample_library ?mined ''0xabc'' =
     ([pending_update (Some ''0xabc''),
       \<lparr>hash = Some ''0xabc'', status = confirmed, confirmations = 1, gasUsed = Some ''1.0'',
        effectiveGasPrice = Some ''1.0'', blockNumber = Some 7, error = None\<rparr>],
      Resolved (sample_receipt (Some 1)))"
    by (simp add: executor_defs sample_defs)
  have x1: "executeTransaction sample_library ?reverted ?sent ''submitCreditData'' [] no_options =
     ([pending_update None, pending_update (Some ''0xabc''),
       \<lparr>hash = Some ''0xabc'', status = failed, confirmations = 1, gasUsed = Some ''1.0'',
        effectiveGasPrice = Some ''1.0'', blockNumber = Some 7, error = None\<rparr>],
      Resolved (sample_receipt (Some 0)))"
    by (simp add: executor_defs sample_defs)
  have x2: "executeTransaction sample_library ?quiet ?refused ''submitCreditData'' [] no_options =
     ([pending_update None, failed_update None (Some ''nonce too low'')],
      Rejected (new_Error (Some ''nonce too low'')))"
    by (simp add: executor_defs sample_defs userMessage_def message_includes_def new_Error_def)
  have x3: "executeTransaction sample_library ?quiet ?sent ''submitCreditData'' [] no_options =
     ([pending_update None, pending_update (Some ''0xabc'')], Never)"
    by (simp add: executor_defs sample_defs)
  note u0 = update_order [of sample_library ?mined "''0xabc''" ?sent
      "''submitCreditData''" "[]" no_options]
  note u1 = update_order [of sample_library ?reverted "''0xabc''" ?sent
      "''submitCreditData''" "[]" no_options]
  note u2 = update_order [of sample_library ?quiet "''0xabc''" ?refused
      "''submitCreditData''" "[]" no_options]
  note u3 = update_order [of sample_library ?quiet "''0xabc''" ?sent
      "''submitCreditData''" "[]" no_options]
  have w1: "snd (trackTransaction sample_library ?mined ''0xabc'') \<noteq> Never"
    by (simp add: t)
  from u0 w1 have "ordered_updates
      (map status (fst (trackTransaction sample_library ?mined ''0xabc'')))"
    by blast
  then have w1': "ordered_updates [pending, confirmed]"
    by (simp add: t pending_update_def)
  from u1 x1 have w2: "ordered_updates [pending, pending, failed]"
    by (simp add: pending_update_def)
  from u2 x2 have w3: "map status (fst (executeTransaction sample_library ?quiet ?refused
      ''submitCreditData'' [] no_options)) = [pending, failed]"
    by (simp add: pending_update_def failed_update_def)
  from u3 x3 have w4: "map status (fst (executeTransaction sample_library ?quiet ?sent
      ''submitCreditData'' [] no_options)) = [pending, pending]"
    by (simp add: pending_update_def)
  from w1 w1' x1 w2 x2 w3 x3 w4 show ?thesis by simp
qed

section \<open>Classification of errors\<close>

text \<open>
  C7. The claim: a message containing "insufficient funds" is classified as insufficient
  funds, and so on for the other two patterns. The error code is tested before the
  message: an error with the code -32603 whose message contains "insufficient funds"
  gets the node-error message, in the failed update and in the error surfaced.
\<close>

theorem error_code_before_message:
  "occurs_in ''insufficient funds''
     (message \<lparr>code = NumCode (- 32603), message = Some ''insufficient funds for gas''\<rparr>) \<and>
   userMessage \<lparr>code = NumCode (- 32603), message = Some ''insufficient funds for gas''\<rparr> =
     Some ''Transaction failed - insufficient funds or contract error'' \<and>
   userMessage \<lparr>code = NumCode (- 32603), message = Some ''insufficient funds for gas''\<rparr> \<noteq>
     Some ''Insufficient ETH balance for gas fees'' \<and>
   executeTransaction sample_library (sample_provider (Resolved legacy_fees) Never)
     (sample_contract (Resolved 100000)
        (Rejected \<lparr>code = NumCode (- 32603), message = Some ''insufficient funds for gas''\<rparr>))
     ''submitCreditData'' [] no_options =
   ([pending_update None,
     failed_update None (Some ''Transaction failed - insufficient funds or contract error'')],
    Rejected (new_Error (Some ''Transaction failed - insufficient funds or contract error'')))"
proof -
  let ?e = "\<lparr>code = NumCode (- 32603), message = Some ''insufficient funds for gas''\<rparr>"
  have "message_includes ?e ''insufficient funds''"
    by (simp add: message_includes_def)
  then have 1: "occurs_in ''insufficient funds'' (message ?e)"
    by (simp only: message_includes_iff)
  have 2: "userMessage ?e = Some ''Transaction failed - insufficient funds or contract error''"
    by (simp add: userMessage_def)
  have 3: "executeTransaction sample_library (sample_provider (Resolved legacy_fees) Never)
     (sample_contract (Resolved 100000) (Rejected ?e)) ''submitCreditData'' [] no_options =
   ([pending_update None,
     failed_update None (Some ''Transaction failed - insufficient funds or contract error'')],
    Rejected (new_Error (Some ''Transaction failed - insufficient funds or contract error'')))"
    by (simp add: executor_defs sample_defs userMessage_def)
  from 1 2 3 show ?thesis by simp
qed

text \<open>
  C7, as the code has it. The user-facing message is a function of the error's code and
  message, chosen by the first test that succeeds: the code 4001, the code -32603, a
  message containing "insufficient funds", one containing "user rejected", one containing
  "execution reverted"; an error that passes none of them keeps its raw message. The
  message chosen is the error text of the executor's \<open>failed\<close> update and the message
  of the error it throws, both when the submission is rejected and when the tracker
  raises.
\<close>

theorem classification_first_match:
  "(code e = NumCode 4001 \<longrightarrow> userMessage e = Some ''Transaction cancelled by user'') \<and>
   (code e = NumCode (- 32603) \<longrightarrow>
      userMessage e = Some ''Transaction failed - insufficient funds or contract error'') \<and>
   (code e \<noteq> NumCode 4001 \<and> code e \<noteq> NumCode (- 32603) \<and>
    occurs_in ''insufficient funds'' (message e) \<longrightarrow>
      userMessage e = Some ''Insufficient ETH balance for gas fees'') \<and>
   (code e \<noteq> NumCode 4001 \<and> code e \<noteq> NumCode (- 32603) \<and>
    \<not> occurs_in ''insufficient funds'' (message e) \<and>
    occurs_in ''user rejected'' (message e) \<longrightarrow>
      userMessage e = Some ''Transaction rejected by user'') \<and>
   (code e \<noteq> NumCode 4001 \<and> code e \<noteq> NumCode (- 32603) \<and>
    \<not> occurs_in ''insufficient funds'' (message e) \<and>
    \<not> occurs_in ''user rejected'' (message e) \<and>
    occurs_in ''execution reverted'' (message e) \<longrightarrow>
      userMessage e = Some ''Contract execution failed - check your data'') \<and>
   (code e \<noteq> NumCode 4001 \<and> code e \<noteq> NumCode (- 32603) \<and>
    \<not> occurs_in ''insufficient funds'' (message e) \<and>
    \<not> occurs_in ''user rejected'' (message e) \<and>
    \<not> occurs_in ''execution reverted'' (message e) \<longrightarrow>
      userMessage e = message e) \<and>
   (\<forall>g. estimateContractCall lib prov c m a = Resolved g \<and>
      send c m a (overrides_of g) = Rejected e \<longrightarrow>
      executeTransaction lib prov c m a opts =
        ([pending_update None, failed_update None (userMessage e)],
         Rejected (new_Error (userMessage e)))) \<and>
   (\<forall>g tx ds. estimateContractCall lib prov c m a = Resolved g \<and>
      send c m a (overrides_of g) = Resolved tx \<and>
      trackTransaction lib prov (tx_hash tx) = (ds, Rejected e) \<longrightarrow>
      executeTransaction lib prov c m a opts =
        (pending_update None # ds @ [failed_update None (userMessage e)],
         Rejected (new_Error (userMessage e))))"
proof -
  have 1: "code e = NumCode 4001 \<longrightarrow> userMessage e = Some ''Transaction cancelled by user''"
    by (simp add: userMessage_def)
  have 2: "code e = NumCode (- 32603) \<longrightarrow>
      userMessage e = Some ''Transaction failed - insufficient funds or contract error''"
    by (simp add: userMessage_def)
  have 3: "code e \<noteq> NumCode 4001 \<and> code e \<noteq> NumCode (- 32603) \<and>
    occurs_in ''insufficient funds'' (message e) \<longrightarrow>
      userMessage e = Some ''Insufficient ETH balance for gas fees''"
    by (simp add: userMessage_def message_includes_iff)
  have 4: "code e \<noteq> NumCode 4001 \<and> code e \<noteq> NumCode (- 32603) \<and>
    \<not> occurs_in ''insufficient funds'' (message e) \<and>
    occurs_in ''user rejected'' (message e) \<longrightarrow>
      userMessage e = Some ''Transaction rejected by user''"
    by (simp add: userMessage_def message_includes_iff)
  have 5: "code e \<noteq> NumCode 4001 \<and> code e \<noteq> NumCode (- 32603) \<and>
    \<not> occurs_in ''insufficient funds'' (message e) \<and>
    \<not> occurs_in ''user rejected'' (message e) \<and>
    occurs_in ''execution reverted'' (message e) \<longrightarrow>
      userMessage e = Some ''Contract execution failed - check your data''"
    by (simp add: userMessage_def message_includes_iff)
  have 6: "code e \<noteq> NumCode 4001 \<and> code e \<noteq> NumCode (- 32603) \<and>
    \<not> occurs_in ''insufficient funds'' (message e) \<and>
    \<not> occurs_in ''user rejected'' (message e) \<and>
    \<not> occurs_in ''execution reverted'' (message e) \<longrightarrow>
      userMessage e = message e"
    by (simp add: userMessage_def message_includes_iff)
  have 7: "\<forall>g. estimateContractCall lib prov c m a = Resolved g \<and>
      send c m a (overrides_of g) = Rejected e \<longrightarrow>
      executeTransaction lib prov c m a opts =
        ([pending_update None, failed_update None (userMessage e)],
         Rejected (new_Error (userMessage e)))"
    by (simp add: executeTransaction_after_estimate execute_catch_def)
  have 8: "\<forall>g tx ds. estimateContractCall lib prov c m a = Resolved g \<and>
      send c m a (overrides_of g) = Resolved tx \<and>
      trackTransaction lib prov (tx_hash tx) = (ds, Rejected e) \<longrightarrow>
      executeTransaction lib prov c m a opts =
        (pending_update None # ds @ [failed_update None (userMessage e)],
         Rejected (new_Error (userMessage e)))"
    by (simp add: executeTransaction_after_estimate execute_catch_def)
  from 1 2 3 4 5 6 7 8 show ?thesis by blast
qed

theorem classification_first_match_witness:
  "code wallet_refusal = NumCode 4001 \<and>
   userMessage wallet_refusal = Some ''Transaction cancelled by user'' \<and>
   code node_failure = NumCode (- 32603) \<and>
   userMessage node_failure =
     Some ''Transaction failed - insufficient funds or contract error'' \<and>
   code low_balance \<noteq> NumCode 4001 \<and> code low_balance \<noteq> NumCode (- 32603) \<and>
   occurs_in ''insufficient funds'' (message low_balance) \<and>
   userMessage low_balance = Some ''Insufficient ETH balance for gas fees'' \<and>
   code action_rejected \<noteq> NumCode 4001 \<and> code action_rejected \<noteq> NumCode (- 32603) \<and>
   \<not> occurs_in ''insufficient funds'' (message action_rejected) \<and>
   occurs_in ''user rejected'' (message action_rejected) \<and>
   userMessage action_rejected = Some ''Transaction rejected by user'' \<and>
   code call_reverted \<noteq> NumCode 4001 \<and> code call_reverted \<noteq> NumCode (- 32603) \<and>
   \<not> occurs_in ''insufficient funds'' (message call_reverted) \<and>
   \<not> occurs_in ''user rejected'' (message call_reverted) \<and>
   occurs_in ''execution reverted'' (message call_reverted) \<and>
   userMessage call_reverted = Some ''Contract execution failed - check your data'' \<and>
   code nonce_error \<noteq> NumCode 4001 \<and> code nonce_error \<noteq> NumCode (- 32603) \<and>
   \<not> occurs_in ''insufficient funds'' (message nonce_error) \<and>
   \<not> occurs_in ''user rejected'' (message nonce_error) \<and>
   \<not> occurs_in ''execution reverted'' (message nonce_error) \<and>
   userMessage nonce_error = Some ''nonce too low'' \<and>
   send (sample_contract (Resolved 100000) (Rejected nonce_error)) ''submitCreditData'' []
     (overrides_of default_estimate) = Rejected nonce_error \<and>
   executeTransaction sample_library
     (sample_provider (Rejected node_failure) Never)
     (sample_contract (Resolved 100000) (Rejected nonce_error)) ''submitCreditData'' []
     no_options =
   ([pending_update None, failed_update None (Some ''nonce too low'')],
    Rejected (new_Error (Some ''nonce too low''))) \<and>
   trackTransaction sample_library (sample_provider (Rejected node_failure) (Rejected call_reverted))
     (tx_hash sample_tx) =
   ([pending_update (Some ''0xabc''),
     failed_update (Some ''0xabc'') (Some ''execution reverted: already submitted'')],
    Rejected call_reverted) \<and>
   executeTransaction sample_library
     (sample_provider (Rejected node_failure) (Rejected call_reverted))
     (sample_contract (Resolved 100000) (Resolved sample_tx)) ''submitCreditData'' []
     no_options =
   ([pending_update None, pending_update (Some ''0xabc''),
     failed_update (Some ''0xabc'') (Some ''execution reverted: already submitted''),
     failed_update None (Some ''Contract execution failed - check your data'')],
    Rejected (new_Error (Some ''Contract execution failed - check your data'')))"
proof -
  let ?down = "sample_provider (Rejected node_failure) Never"
  let ?drop = "sample_provider (Rejected node_failure) (Rejected call_reverted)"
  let ?refused = "sample_contract (Resolved 100000) (Rejected nonce_error)"
  let ?sent = "sample_contract (Resolved 100000) (Resolved sample_tx)"
  have inc: "message_includes low_balance ''insufficient funds''"
    "\<not> message_includes action_rejected ''insufficient funds''"
    "message_includes action_rejected ''user rejected''"
    "\<not> message_includes call_reverted ''insufficient funds''"
    "\<not> message_includes call_reverted ''user rejected''"
    "message_includes call_reverted ''execution reverted''"
    "\<not> message_includes nonce_error ''insufficient funds''"
    "\<not> message_includes nonce_error ''user rejected''"
    "\<not> message_includes nonce_error ''execution reverted''"
    by (simp_all add: message_includes_def sample_errors)
  note occ = inc [unfolded message_includes_iff]
  have cd: "code wallet_refusal = NumCode 4001" "code node_failure = NumCode (- 32603)"
    "code low_balance \<noteq> NumCode 4001 \<and> code low_balance \<noteq> NumCode (- 32603)"
    "code action_rejected \<noteq> NumCode 4001 \<and> code action_rejected \<noteq> NumCode (- 32603)"
    "code call_reverted \<noteq> NumCode 4001 \<and> code call_reverted \<noteq> NumCode (- 32603)"
    "code nonce_error \<noteq> NumCode 4001 \<and> code nonce_error \<noteq> NumCode (- 32603)"
    by (simp_all add: sample_errors)
  have est: "estimateContractCall sample_library ?down c ''submitCreditData'' [] =
      Resolved default_estimate" for c :: "unit contract"
    by (simp add: estimateContractCall_def estimate_try_def sample_provider_def)
  have snd1: "send ?refused ''submitCreditData'' [] (overrides_of default_estimate) =
      Rejected nonce_error"
    by (simp add: sample_contract_def)
  have est2: "estimateContractCall sample_library ?drop ?sent ''submitCreditData'' [] =
      Resolved default_estimate"
    by (simp add: estimateContractCall_def estimate_try_def sample_provider_def)
  have snd2: "send ?sent ''submitCreditData'' [] (overrides_of default_estimate) =
      Resolved sample_tx"
    by (simp add: sample_contract_def)
  have trk: "trackTransaction sample_library ?drop (tx_hash sample_tx) =
     ([pending_update (Some ''0xabc''),
       failed_update (Some ''0xabc'') (Some ''execution reverted: already submitted'')],
      Rejected call_reverted)"
    by (simp add: trackTransaction_def track_try_def sample_provider_def sample_tx_def
        call_reverted_def)
  note c1 = classification_first_match [of wallet_refusal sample_library ?down ?refused
      "''submitCreditData''" "[]" no_options]
  note c2 = classification_first_match [of node_failure sample_library ?down ?refused
      "''submitCreditData''" "[]" no_options]
  note c3 = classification_first_match [of low_balance sample_library ?down ?refused
      "''submitCreditData''" "[]" no_options]
  note c4 = classification_first_match [of action_rejected sample_library ?down ?refused
      "''submitCreditData''" "[]" no_options]
  note c5 = classification_first_match [of call_reverted sample_library ?drop ?sent
      "''submitCreditData''" "[]" no_options]
  note c6 = classification_first_match [of nonce_error sample_library ?down ?refused
      "''submitCreditData''" "[]" no_options]
  from c1 cd(1) have u1: "userMessage wallet_refusal = Some ''Transaction cancelled by user''"
    by blast
  from c2 cd(2) have u2: "userMessage node_failure =
      Some ''Transaction failed - insufficient funds or contract error''"
    by blast
  from c3 cd(3) occ(1) have u3: "userMessage low_balance =
      Some ''Insufficient ETH balance for gas fees''"
    by blast
  from c4 cd(4) occ(2,3) have u4: "userMessage action_rejected =
      Some ''Transaction rejected by user''"
    by blast
  from c5 cd(5) occ(4,5,6) have u5: "userMessage call_reverted =
      Some ''Contract execution failed - check your data''"
    by blast
  from c6 cd(6) occ(7,8,9) have "userMessage nonce_error = message nonce_error"
    by blast
  then have u6: "userMessage nonce_error = Some ''nonce too low''"
    by (simp add: nonce_error_def)
  from c6 est [of ?refused] snd1 have "executeTransaction sample_library ?down ?refused
      ''submitCreditData'' [] no_options =
      ([pending_update None, failed_update None (userMessage nonce_error)],
       Rejected (new_Error (userMessage nonce_error)))"
    by blast
  then have x1: "executeTransaction sample_library ?down ?refused
      ''submitCreditData'' [] no_options =
      ([pending_update None, failed_update None (Some ''nonce too low'')],
       Rejected (new_Error (Some ''nonce too low'')))"
    by (simp only: u6)
  from c5 est2 snd2 trk have "executeTransaction sample_library ?drop ?sent
      ''submitCreditData'' [] no_options =
      (pending_update None #
       [pending_update (Some ''0xabc''),
        failed_update (Some ''0xabc'') (Some ''execution reverted: already submitted'')] @
       [failed_update None (userMessage call_reverted)],
       Rejected (new_Error (userMessage call_reverted)))"
    by blast
  then have x2: "executeTransaction sample_library ?drop ?sent
      ''submitCreditData'' [] no_options =
     ([pending_update None, pending_update (Some ''0xabc''),
       failed_update (Some ''0xabc'') (Some ''execution reverted: already submitted''),
       failed_update None (Some ''Contract execution failed - check your data'')],
      Rejected (new_Error (Some ''Contract execution failed - check your data'')))"
    by (simp add: u5)
  from cd occ u1 u2 u3 u4 u5 u6 snd1 x1 trk x2 show ?thesis by simp
qed

section \<open>The options of the executor\<close>

text \<open>
  C1. The claim: when the submission succeeds and no receipt arrives within the
  configured timeout, the call fails with a timeout and one \<open>failed\<close> update is
  delivered. The executor reads the \<^verbatim>\<open>timeout\<close> option and never uses it, and the
  tracker waits without a deadline: with a timeout of 1000 ms, an accepted submission and
  a confirmation wait that never settles, the call never settles and the two \<open>pending\<close>
  updates are all that is delivered.
\<close>

theorem timeout_not_enforced:
  "executeTransaction sample_library (sample_provider (Resolved legacy_fees) Never)
     (sample_contract (Resolved 100000) (Resolved sample_tx)) ''submitCreditData'' []
     \<lparr>opt_confirmations = None, opt_timeout = Some 1000\<rparr> =
   ([pending_update None, pending_update (Some ''0xabc'')], Never)"
  by (simp add: executor_defs sample_defs)

text \<open>
  C6. The claim: the terminal update of a tracked transaction carries the requested
  confirmation count. The executor reads the \<^verbatim>\<open>confirmations\<close> option and never uses
  it; the tracker waits for one confirmation and reports one. With three confirmations
  requested and a successful receipt, the terminal update is \<open>confirmed\<close> with the
  confirmation count 1.
\<close>

theorem confirmations_not_forwarded:
  "map (\<lambda>u. (status u, confirmations u))
     (fst (executeTransaction sample_library
        (sample_provider (Resolved dynamic_fees) (Resolved (Some (sample_receipt (Some 1)))))
        (sample_contract (Resolved 100000) (Resolved sample_tx)) ''submitCreditData'' []
        \<lparr>opt_confirmations = Some 3, opt_timeout = None\<rparr>)) =
   [(pending, 0), (pending, 0), (confirmed, 1)]"
  by (simp add: executor_defs sample_defs pending_update_def)

section \<open>Decryption placeholder and receipt lookup\<close>

text \<open>
  C9. With the FHE instance initialised, \<^verbatim>\<open>decryptResult\<close> resolves with the number
  0 for every input text: the bytes it parses are never read, and nothing tells the caller
  that no decryption took place.
\<close>

theorem decryptResult_zero:
  "decryptResult (Some inst) encryptedResult = Resolved 0"
  by (simp add: decryptResult_def)

text \<open>
  C10. \<^verbatim>\<open>getTransactionStatus\<close> never rejects: it resolves with what the provider's
  receipt query resolves with, and with null when that query throws.
\<close>

theorem getTransactionStatus_never_raises:
  "(\<forall>e. getTransactionStatus prov txHash \<noteq> Rejected e) \<and>
   (\<forall>r. getTransactionReceipt prov txHash = Resolved r \<longrightarrow>
      getTransactionStatus prov txHash = Resolved r) \<and>
   (\<forall>e. getTransactionReceipt prov txHash = Rejected e \<longrightarrow>
      getTransactionStatus prov txHash = Resolved None)"
  by (cases "getTransactionReceipt prov txHash") (simp_all add: getTransactionStatus_def)

theorem getTransactionStatus_never_raises_witness:
  "getTransactionReceipt
     (sample_provider (Resolved legacy_fees) (Resolved (Some (sample_receipt (Some 1)))))
     ''0xabc'' = Resolved (Some (sample_receipt (Some 1))) \<and>
   getTransactionStatus
     (sample_provider (Resolved legacy_fees) (Resolved (Some (sample_receipt (Some 1)))))
     ''0xabc'' = Resolved (Some (sample_receipt (Some 1))) \<and>
   getTransactionReceipt (sample_provider (Resolved legacy_fees) (Rejected node_failure))
     ''0xabc'' = Rejected node_failure \<and>
   getTransactionStatus (sample_provider (Resolved legacy_fees) (Rejected node_failure))
     ''0xabc'' = Resolved None"
proof -
  let ?found = "sample_provider (Resolved legacy_fees) (Resolved (Some (sample_receipt (Some 1))))"
  let ?broken = "sample_provider (Resolved legacy_fees) (Rejected node_failure)"
  have a: "getTransactionReceipt ?found ''0xabc'' = Resolved (Some (sample_receipt (Some 1)))"
    by (simp add: sample_provider_def)
  have b: "getTransactionReceipt ?broken ''0xabc'' = Rejected node_failure"
    by (simp add: sample_provider_def)
  from getTransactionStatus_never_raises [of ?found "''0xabc''"] a
  have 1: "getTransactionStatus ?found ''0xabc'' = Resolved (Some (sample_receipt (Some 1)))"
    by blast
  from getTransactionStatus_never_raises [of ?broken "''0xabc''"] b
  have 2: "getTransactionStatus ?broken ''0xabc'' = Resolved None"
    by blast
  from a 1 b 2 show ?thesis by simp
qed

end
